theory Spec2Isabelle
  imports Main "HOL-Library.Sublist"
begin

section \<open>Python strings\<close>

text \<open>
  A Python \<open>str\<close> is a sequence of code points and \<open>len\<close> counts them. The model
  uses \<^typ>\<open>string\<close> with one \<^typ>\<open>char\<close> per code point, which covers the code
  points below 256 (ASCII and Latin-1, where the accented letters handled by
  \<open>Title.to_slug\<close> live). On that range \<open>str.isspace\<close>, \<open>str.lower\<close> and the
  regular-expression class \<open>\s\<close> are the finite tables below.
\<close>

definition isspace :: "char \<Rightarrow> bool" where
  "isspace c =
     (let n = (of_char c :: nat)
      in (9 \<le> n \<and> n \<le> 13) \<or> (28 \<le> n \<and> n \<le> 32) \<or> n = 133 \<or> n = 160)"

definition lstrip :: "string \<Rightarrow> string" where
  "lstrip s = dropWhile isspace s"

definition rstrip :: "string \<Rightarrow> string" where
  "rstrip s = rev (dropWhile isspace (rev s))"

definition strip :: "string \<Rightarrow> string" where
  "strip s = rstrip (lstrip s)"

definition lower_char :: "char \<Rightarrow> char" where
  "lower_char c =
     (let n = (of_char c :: nat)
      in if (65 \<le> n \<and> n \<le> 90) \<or> (192 \<le> n \<and> n \<le> 222 \<and> n \<noteq> 215)
         then char_of (n + 32) else c)"

definition lower :: "string \<Rightarrow> string" where
  "lower s = map lower_char s"

text \<open>\<open>re.sub(r"[...]", r, s)\<close> for a character class and a one-character replacement.\<close>

definition re_sub_class :: "char list \<Rightarrow> char \<Rightarrow> string \<Rightarrow> string" where
  "re_sub_class cls r s = map (\<lambda>c. if List.member cls c then r else c) s"

definition is_az09 :: "char \<Rightarrow> bool" where
  "is_az09 c =
     (let n = (of_char c :: nat) in (97 \<le> n \<and> n \<le> 122) \<or> (48 \<le> n \<and> n \<le> 57))"

text \<open>\<open>re.sub(r"[^a-z0-9\s-]", "", s)\<close>: every character outside the class is deleted.\<close>

definition re_sub_not_slug_chars :: "string \<Rightarrow> string" where
  "re_sub_not_slug_chars s = filter (\<lambda>c. is_az09 c \<or> isspace c \<or> c = CHR ''-'') s"

text \<open>\<open>re.sub(r"[\s]+", "-", s)\<close>: every maximal run of whitespace becomes one hyphen.\<close>

function re_sub_spaces :: "string \<Rightarrow> string" where
  "re_sub_spaces [] = []"
| "re_sub_spaces (c # cs) =
     (if isspace c then CHR ''-'' # re_sub_spaces (dropWhile isspace cs)
      else c # re_sub_spaces cs)"
  by pat_completeness auto
termination
  by (relation "measure length") (auto simp: length_dropWhile_le less_Suc_eq_le)

section \<open>Errors\<close>

text \<open>
  Every exception class the domain raises is a constructor. The formatted messages are
  kept as the data they are formatted from.
\<close>

datatype domain_msg = EmptySlug | InvalidSlug string

datatype validation_msg =
    EmptyCommentBody
  | CommentTooLong nat
  | CommentNotFound nat

datatype error =
    DomainError domain_msg
  | NotFoundError
  | ValidationError validation_msg
  | PostAlreadyPublishedError
  | PostArchivedError string
  | InvalidPostContentError nat nat
  | UnauthorizedPostActionError string
  | CommentNotAllowedError string

section \<open>Value objects\<close>

type_synonym uuid = nat
type_synonym timestamp = nat

datatype title = Title (title_value: string)
datatype slug = Slug (slug_value: string)
datatype content = Content (content_value: string)

text \<open>
  \<open>re.match(r"^[a-z0-9][a-z0-9-]*[a-z0-9]$", s)\<close>; \<open>$\<close> also matches just before a
  final newline.
\<close>

definition slug_core :: "string \<Rightarrow> bool" where
  "slug_core s =
     (2 \<le> length s \<and> is_az09 (hd s) \<and> is_az09 (last s) \<and>
      list_all (\<lambda>c. is_az09 c \<or> c = CHR ''-'') s)"

definition slug_re_match :: "string \<Rightarrow> bool" where
  "slug_re_match s =
     (slug_core s \<or> (s \<noteq> [] \<and> last s = CHR 0x0A \<and> slug_core (butlast s)))"

text \<open>\<open>Slug.__post_init__\<close>\<close>

definition mk_slug :: "string \<Rightarrow> error + slug" where
  "mk_slug v =
     (let cleaned = lower (strip v)
      in if cleaned = [] then Inl (DomainError EmptySlug)
         else if \<not> slug_re_match cleaned \<and> length cleaned > 1
              then Inl (DomainError (InvalidSlug cleaned))
         else Inr (Slug cleaned))"

text \<open>\<open>Title.to_slug\<close>\<close>

definition to_slug_raw :: "string \<Rightarrow> string" where
  "to_slug_raw v =
     (let raw = lower v;
          raw = re_sub_class [CHR 0xE1, CHR 0xE0, CHR 0xE4, CHR 0xE2] CHR ''a'' raw;
          raw = re_sub_class [CHR 0xE9, CHR 0xE8, CHR 0xEB, CHR 0xEA] CHR ''e'' raw;
          raw = re_sub_class [CHR 0xED, CHR 0xEC, CHR 0xEF, CHR 0xEE] CHR ''i'' raw;
          raw = re_sub_class [CHR 0xF3, CHR 0xF2, CHR 0xF6, CHR 0xF4] CHR ''o'' raw;
          raw = re_sub_class [CHR 0xFA, CHR 0xF9, CHR 0xFC, CHR 0xFB] CHR ''u'' raw;
          raw = re_sub_class [CHR 0xF1] CHR ''n'' raw;
          raw = re_sub_not_slug_chars raw;
          raw = re_sub_spaces (strip raw)
      in raw)"

definition to_slug :: "title \<Rightarrow> error + slug" where
  "to_slug t = mk_slug (to_slug_raw (title_value t))"

definition MIN_LENGTH_TO_PUBLISH :: nat where
  "MIN_LENGTH_TO_PUBLISH = 100"

definition is_publishable :: "content \<Rightarrow> bool" where
  "is_publishable c = (length (strip (content_value c)) \<ge> MIN_LENGTH_TO_PUBLISH)"

section \<open>Clock and identifier supply\<close>

text \<open>
  \<open>datetime.now\<close> and \<open>uuid4\<close> read the outside world. The world is a clock and an
  identifier source, each with the number of reads made so far; every read returns the
  next value and advances the counter.
\<close>

record world =
  clock :: "nat \<Rightarrow> timestamp"
  clock_reads :: nat
  uuid_source :: "nat \<Rightarrow> uuid"
  uuid_reads :: nat

definition now :: "world \<Rightarrow> timestamp \<times> world" where
  "now w = (clock w (clock_reads w), w\<lparr>clock_reads := Suc (clock_reads w)\<rparr>)"

definition uuid4 :: "world \<Rightarrow> uuid \<times> world" where
  "uuid4 w = (uuid_source w (uuid_reads w), w\<lparr>uuid_reads := Suc (uuid_reads w)\<rparr>)"

text \<open>\<open>Entity.__init__\<close>: \<open>entity_id or uuid4()\<close>.\<close>

definition entity_init :: "uuid option \<Rightarrow> world \<Rightarrow> uuid \<times> world" where
  "entity_init entity_id w = (case entity_id of Some i \<Rightarrow> (i, w) | None \<Rightarrow> uuid4 w)"

section \<open>Domain events\<close>

text \<open>
  The event dataclasses do not check the types of their fields, and the dispatcher
  builds them from decoded JSON, so a field holds any Python value.
\<close>

datatype pyval =
    PNone
  | PBool bool
  | PInt int
  | PStr string
  | PUuid uuid
  | PList "pyval list"
  | PDict "(string \<times> pyval) list"

text \<open>
  The first two arguments of every event are the inherited \<open>event_id\<close> and
  \<open>occurred_at\<close>; the others are the fields in declaration order.
\<close>

datatype domain_event =
    PostCreated uuid timestamp pyval pyval pyval
  | PostPublished uuid timestamp pyval pyval
  | PostArchived uuid timestamp pyval
  | CommentAdded uuid timestamp pyval pyval pyval
  | PostUpdated uuid timestamp pyval pyval

text \<open>The default factories of \<open>DomainEvent\<close>: \<open>event_id\<close> first, then \<open>occurred_at\<close>.\<close>

definition event_defaults :: "world \<Rightarrow> (uuid \<times> timestamp) \<times> world" where
  "event_defaults w = (let (eid, w1) = uuid4 w; (t, w2) = now w1 in ((eid, t), w2))"

section \<open>Entities\<close>

datatype post_status = DRAFT | PUBLISHED | ARCHIVED

record comment =
  comment_id :: uuid
  body :: string
  comment_author_id :: uuid
  comment_created_at :: timestamp
  is_deleted :: bool

definition MAX_LENGTH :: nat where
  "MAX_LENGTH = 1000"

definition validate_body :: "string \<Rightarrow> error option" where
  "validate_body b =
     (if b = [] \<or> strip b = [] then Some (ValidationError EmptyCommentBody)
      else if length b > MAX_LENGTH then Some (ValidationError (CommentTooLong (length b)))
      else None)"

text \<open>\<open>Comment.__init__\<close>\<close>

definition new_comment :: "string \<Rightarrow> uuid \<Rightarrow> uuid option \<Rightarrow> world \<Rightarrow> (error + comment) \<times> world" where
  "new_comment b author cid w =
     (let (i, w1) = entity_init cid w
      in case validate_body b of
           Some e \<Rightarrow> (Inl e, w1)
         | None \<Rightarrow>
             (let (t, w2) = now w1
              in (Inr \<lparr>comment_id = i, body = strip b, comment_author_id = author,
                       comment_created_at = t, is_deleted = False\<rparr>, w2)))"

definition tombstone :: string where
  "tombstone = ''[comentario eliminado]''"

definition soft_delete :: "uuid \<Rightarrow> comment \<Rightarrow> error + comment" where
  "soft_delete requesting_user_id c =
     (if requesting_user_id \<noteq> comment_author_id c
      then Inl (UnauthorizedPostActionError ''eliminar comentario'')
      else Inr (c\<lparr>is_deleted := True, body := tombstone\<rparr>))"

record post =
  post_id :: uuid
  title :: title
  slug :: slug
  content :: content
  author_id :: uuid
  category_id :: "uuid option"
  status :: post_status
  tags :: "string list"
  created_at :: timestamp
  updated_at :: timestamp
  published_at :: "timestamp option"

definition is_published :: "post \<Rightarrow> bool" where
  "is_published p = (status p = PUBLISHED)"

definition is_draft :: "post \<Rightarrow> bool" where
  "is_draft p = (status p = DRAFT)"

definition is_archived :: "post \<Rightarrow> bool" where
  "is_archived p = (status p = ARCHIVED)"

text \<open>\<open>Post.__init__\<close>\<close>

definition new_post ::
  "title \<Rightarrow> content \<Rightarrow> uuid \<Rightarrow> uuid option \<Rightarrow> uuid option \<Rightarrow> world \<Rightarrow> (error + post) \<times> world" where
  "new_post t c author cat pid w =
     (let (i, w1) = entity_init pid w
      in case to_slug t of
           Inl e \<Rightarrow> (Inl e, w1)
         | Inr s \<Rightarrow>
             (let (t1, w2) = now w1; (t2, w3) = now w2
              in (Inr \<lparr>post_id = i, title = t, slug = s, content = c, author_id = author,
                       category_id = cat, status = DRAFT, tags = [], created_at = t1,
                       updated_at = t2, published_at = None\<rparr>, w3)))"

definition set_status :: "post_status \<Rightarrow> post \<Rightarrow> world \<Rightarrow> post \<times> world" where
  "set_status s p w = (let (t, w1) = now w in (p\<lparr>status := s, updated_at := t\<rparr>, w1))"

definition set_published_at :: "timestamp \<Rightarrow> post \<Rightarrow> post" where
  "set_published_at dt p = p\<lparr>published_at := Some dt\<rparr>"

text \<open>
  \<open>Post._update_content\<close> assigns the title before it computes the slug, so when
  \<open>to_slug\<close> raises the post keeps the new title with the old slug. The post after
  the call is returned in both cases.
\<close>

definition update_content ::
  "title \<Rightarrow> content \<Rightarrow> post \<Rightarrow> world \<Rightarrow> (error + unit) \<times> post \<times> world" where
  "update_content t c p w =
     (let p1 = p\<lparr>title := t\<rparr>
      in case to_slug t of
           Inl e \<Rightarrow> (Inl e, p1, w)
         | Inr s \<Rightarrow>
             (let (ts, w1) = now w
              in (Inr (), p1\<lparr>slug := s, content := c, updated_at := ts\<rparr>, w1)))"

definition add_tag :: "string \<Rightarrow> post \<Rightarrow> post" where
  "add_tag tag p =
     (let normalized = strip (lower tag)
      in if normalized \<noteq> [] \<and> \<not> List.member (tags p) normalized
         then p\<lparr>tags := tags p @ [normalized]\<rparr> else p)"

definition set_category :: "uuid option \<Rightarrow> post \<Rightarrow> post" where
  "set_category cat p = p\<lparr>category_id := cat\<rparr>"

section \<open>The post aggregate\<close>

record post_aggregate =
  agg_id :: uuid
  post :: post
  comments_list :: "comment list"
  domain_events :: "domain_event list"

definition record_event :: "domain_event \<Rightarrow> post_aggregate \<Rightarrow> post_aggregate" where
  "record_event e a = a\<lparr>domain_events := domain_events a @ [e]\<rparr>"

text \<open>\<open>AggregateRoot.pull_events\<close>: the returned list and the aggregate afterwards.\<close>

definition pull_events :: "post_aggregate \<Rightarrow> domain_event list \<times> post_aggregate" where
  "pull_events a = (domain_events a, a\<lparr>domain_events := []\<rparr>)"

text \<open>The properties \<open>comments\<close> and \<open>all_comments\<close>.\<close>

definition comments :: "post_aggregate \<Rightarrow> comment list" where
  "comments a = filter (\<lambda>c. \<not> is_deleted c) (comments_list a)"

definition all_comments :: "post_aggregate \<Rightarrow> comment list" where
  "all_comments a = comments_list a"

text \<open>
  The commands mutate the aggregate in place and may raise. Each is a function from the
  aggregate and the world to the outcome (\<open>Inl\<close> the exception raised, \<open>Inr\<close> the
  value returned), the aggregate after the call and the world after the call.
\<close>

text \<open>\<open>PostAggregate.__init__\<close>\<close>

definition new_post_aggregate ::
  "title \<Rightarrow> content \<Rightarrow> uuid \<Rightarrow> uuid option \<Rightarrow> uuid option \<Rightarrow> world
     \<Rightarrow> (error + post_aggregate) \<times> world" where
  "new_post_aggregate t c author cat pid w =
     (let (i, w1) = entity_init pid w
      in case new_post t c author cat (Some i) w1 of
           (Inl e, w2) \<Rightarrow> (Inl e, w2)
         | (Inr p, w2) \<Rightarrow>
             (let ((eid, ts), w3) = event_defaults w2
              in (Inr (record_event
                         (PostCreated eid ts (PUuid i) (PUuid author) (PStr (title_value t)))
                         \<lparr>agg_id = i, post = p, comments_list = [], domain_events = []\<rparr>),
                  w3)))"

definition publish :: "post_aggregate \<Rightarrow> world \<Rightarrow> (error + unit) \<times> post_aggregate \<times> world" where
  "publish a w =
     (if is_published (post a) then (Inl PostAlreadyPublishedError, a, w)
      else if is_archived (post a) then (Inl (PostArchivedError ''publicar''), a, w)
      else if \<not> is_publishable (content (post a))
           then (Inl (InvalidPostContentError (length (content_value (content (post a))))
                        MIN_LENGTH_TO_PUBLISH), a, w)
      else
        (let (p1, w1) = set_status PUBLISHED (post a) w;
             (t, w2) = now w1;
             p2 = set_published_at t p1;
             ((eid, ts), w3) = event_defaults w2
         in (Inr (),
             record_event (PostPublished eid ts (PUuid (agg_id a)) (PStr (slug_value (slug p2))))
               (a\<lparr>post := p2\<rparr>),
             w3)))"

definition archive ::
  "uuid \<Rightarrow> post_aggregate \<Rightarrow> world \<Rightarrow> (error + unit) \<times> post_aggregate \<times> world" where
  "archive requesting_author_id a w =
     (if requesting_author_id \<noteq> author_id (post a)
      then (Inl (UnauthorizedPostActionError ''archivar''), a, w)
      else if is_archived (post a)
           then (Inl (PostArchivedError ''archivar nuevamente''), a, w)
      else
        (let (p1, w1) = set_status ARCHIVED (post a) w;
             ((eid, ts), w2) = event_defaults w1
         in (Inr (), record_event (PostArchived eid ts (PUuid (agg_id a))) (a\<lparr>post := p1\<rparr>),
             w2)))"

definition update ::
  "title \<Rightarrow> content \<Rightarrow> uuid \<Rightarrow> post_aggregate \<Rightarrow> world
     \<Rightarrow> (error + unit) \<times> post_aggregate \<times> world" where
  "update new_title new_content requesting_author_id a w =
     (if requesting_author_id \<noteq> author_id (post a)
      then (Inl (UnauthorizedPostActionError ''editar''), a, w)
      else if is_archived (post a) then (Inl (PostArchivedError ''editar''), a, w)
      else
        (case update_content new_title new_content (post a) w of
           (Inl e, p1, w1) \<Rightarrow> (Inl e, a\<lparr>post := p1\<rparr>, w1)
         | (Inr u, p1, w1) \<Rightarrow>
             (let ((eid, ts), w2) = event_defaults w1
              in (Inr (),
                  record_event
                    (PostUpdated eid ts (PUuid (agg_id a)) (PStr (title_value new_title)))
                    (a\<lparr>post := p1\<rparr>),
                  w2))))"

definition add_comment ::
  "string \<Rightarrow> uuid \<Rightarrow> post_aggregate \<Rightarrow> world
     \<Rightarrow> (error + comment) \<times> post_aggregate \<times> world" where
  "add_comment b commenter_id a w =
     (if is_archived (post a)
      then (Inl (CommentNotAllowedError (''el post est'' @ [CHR 0xE1] @ '' archivado'')), a, w)
      else
        (case new_comment b commenter_id None w of
           (Inl e, w1) \<Rightarrow> (Inl e, a, w1)
         | (Inr c, w1) \<Rightarrow>
             (let a1 = a\<lparr>comments_list := comments_list a @ [c]\<rparr>;
                  ((eid, ts), w2) = event_defaults w1
              in (Inr c,
                  record_event
                    (CommentAdded eid ts (PUuid (agg_id a)) (PUuid (comment_id c))
                       (PUuid commenter_id))
                    a1,
                  w2))))"

text \<open>
  \<open>next((c for c in self._comments if c.id == comment_id), None)\<close> yields the first
  comment with that identifier; it is then changed in place, so the model works with its
  position in the list.
\<close>

fun first_index :: "('a \<Rightarrow> bool) \<Rightarrow> 'a list \<Rightarrow> nat option" where
  "first_index P [] = None"
| "first_index P (x # xs) = (if P x then Some 0 else map_option Suc (first_index P xs))"

definition remove_comment ::
  "uuid \<Rightarrow> uuid \<Rightarrow> post_aggregate \<Rightarrow> (error + unit) \<times> post_aggregate" where
  "remove_comment cid requesting_user_id a =
     (case first_index (\<lambda>c. comment_id c = cid) (comments_list a) of
        None \<Rightarrow> (Inl (ValidationError (CommentNotFound cid)), a)
      | Some i \<Rightarrow>
          (case soft_delete requesting_user_id (comments_list a ! i) of
             Inl e \<Rightarrow> (Inl e, a)
           | Inr c' \<Rightarrow> (Inr (), a\<lparr>comments_list := (comments_list a)[i := c']\<rparr>)))"

definition add_tags :: "string list \<Rightarrow> post_aggregate \<Rightarrow> post_aggregate" where
  "add_tags ts a = a\<lparr>post := fold add_tag ts (post a)\<rparr>"

definition agg_set_category :: "uuid option \<Rightarrow> post_aggregate \<Rightarrow> post_aggregate" where
  "agg_set_category cat a = a\<lparr>post := set_category cat (post a)\<rparr>"

text \<open>\<open>PostAggregate.reconstitute\<close>\<close>

definition reconstitute ::
  "uuid \<Rightarrow> title \<Rightarrow> content \<Rightarrow> uuid \<Rightarrow> post_status \<Rightarrow> timestamp \<Rightarrow> timestamp option
     \<Rightarrow> string list \<Rightarrow> uuid option \<Rightarrow> comment list \<Rightarrow> error + post_aggregate" where
  "reconstitute pid t c author st created published tgs cat cmts =
     (case to_slug t of
        Inl e \<Rightarrow> Inl e
      | Inr s \<Rightarrow>
          Inr \<lparr>agg_id = pid,
               post = \<lparr>post_id = pid, title = t, slug = s, content = c, author_id = author,
                        category_id = cat, status = st, tags = tgs, created_at = created,
                        updated_at = created, published_at = published\<rparr>,
               comments_list = cmts,
               domain_events = []\<rparr>)"

section \<open>The dispatch worker\<close>

text \<open>
  A Python dict with string keys is an association list with distinct keys; \<open>d.get(k, v)\<close>
  is a lookup with a default.
\<close>

definition dict_get :: "(string \<times> pyval) list \<Rightarrow> string \<Rightarrow> pyval \<Rightarrow> pyval" where
  "dict_get d k dflt = (case map_of d k of Some v \<Rightarrow> v | None \<Rightarrow> dflt)"

definition dict_pop :: "string \<Rightarrow> (string \<times> pyval) list \<Rightarrow> (string \<times> pyval) list" where
  "dict_pop k d = filter (\<lambda>kv. fst kv \<noteq> k) d"

text \<open>Truth value of a Python object, as \<open>if v\<close> tests it.\<close>

fun truthy :: "pyval \<Rightarrow> bool" where
  "truthy PNone = False"
| "truthy (PBool b) = b"
| "truthy (PInt n) = (n \<noteq> 0)"
| "truthy (PStr s) = (s \<noteq> [])"
| "truthy (PUuid u) = True"
| "truthy (PList l) = (l \<noteq> [])"
| "truthy (PDict d) = (d \<noteq> [])"

definition handlers_module :: string where
  "handlers_module = ''src.application.blog.event_handlers.post_event_handlers''"

definition EVENT_HANDLER_MAP :: "(string \<times> string \<times> string) list" where
  "EVENT_HANDLER_MAP =
     [(''PostCreated'', handlers_module, ''OnPostCreated''),
      (''PostPublished'', handlers_module, ''OnPostPublished''),
      (''PostArchived'', handlers_module, ''OnPostArchived''),
      (''CommentAdded'', handlers_module, ''OnCommentAdded''),
      (''PostUpdated'', handlers_module, ''OnPostCreated'')]"

datatype task_exc =
    UnhashableKey
  | MissingHandlerClass string
  | HandlerRaised nat

text \<open>\<open>EVENT_HANDLER_MAP.get(event_type)\<close>: a list or a dict is not hashable.\<close>

fun handler_map_get :: "pyval \<Rightarrow> task_exc + (string \<times> string) option" where
  "handler_map_get (PStr s) = Inr (map_of EVENT_HANDLER_MAP s)"
| "handler_map_get (PList l) = Inl UnhashableKey"
| "handler_map_get (PDict d) = Inl UnhashableKey"
| "handler_map_get v = Inr None"

datatype log_msg =
    Processing pyval pyval
  | NoHandler pyval
  | RawPayload string
  | Processed pyval string
  | ErrorProcessing pyval task_exc
  | ReconstructFailed pyval

datatype log_level = INFO | WARNING | ERROR

text \<open>
  The worker's surroundings: the clock and identifier supply, the log, the handler
  invocations made so far (handler class and event), the countdowns of the retries
  scheduled so far, and the behaviour of the handlers' collaborators: \<open>raises s i\<close>
  says that the invocation number \<open>i\<close> (from 0) of a handler raises.
\<close>

record worker =
  sys :: world
  logged :: "(log_level \<times> log_msg) list"
  handled :: "(string \<times> domain_event) list"
  scheduled :: "nat list"
  raises :: "nat \<Rightarrow> bool"

definition log_to :: "log_level \<Rightarrow> log_msg \<Rightarrow> worker \<Rightarrow> worker" where
  "log_to lvl m s = s\<lparr>logged := logged s @ [(lvl, m)]\<rparr>"

text \<open>
  \<open>event_cls(**clean_data)\<close>, called once \<open>event_id\<close> and \<open>occurred_at\<close> have been
  popped, so these two fields always come from their default factories. A keyword that
  is not a field is a \<open>TypeError\<close> (here \<open>None\<close>); a missing field takes its default.
\<close>

definition keys_within :: "string list \<Rightarrow> (string \<times> pyval) list \<Rightarrow> bool" where
  "keys_within names kw = list_all (\<lambda>kv. List.member names (fst kv)) kw"

definition construct_event ::
  "string \<Rightarrow> (string \<times> pyval) list \<Rightarrow> world \<Rightarrow> domain_event option \<times> world" where
  "construct_event cls kw w =
     (let ((eid, ts), w1) = event_defaults w
      in if cls = ''PostCreated'' then
           (if keys_within [''post_id'', ''author_id'', ''title''] kw
            then (Some (PostCreated eid ts (dict_get kw ''post_id'' PNone)
                          (dict_get kw ''author_id'' PNone) (dict_get kw ''title'' (PStr []))), w1)
            else (None, w))
         else if cls = ''PostPublished'' then
           (if keys_within [''post_id'', ''slug''] kw
            then (Some (PostPublished eid ts (dict_get kw ''post_id'' PNone)
                          (dict_get kw ''slug'' (PStr []))), w1)
            else (None, w))
         else if cls = ''PostArchived'' then
           (if keys_within [''post_id''] kw
            then (Some (PostArchived eid ts (dict_get kw ''post_id'' PNone)), w1)
            else (None, w))
         else if cls = ''CommentAdded'' then
           (if keys_within [''post_id'', ''comment_id'', ''author_id''] kw
            then (Some (CommentAdded eid ts (dict_get kw ''post_id'' PNone)
                          (dict_get kw ''comment_id'' PNone) (dict_get kw ''author_id'' PNone)), w1)
            else (None, w))
         else (None, w))"

text \<open>
  \<open>UUID(v) if v else None\<close> with its \<open>except (ValueError, AttributeError)\<close>. \<open>UUID\<close> is
  the standard library's parser, a parameter here: \<open>uuid_of_str s = None\<close> stands for
  its \<open>ValueError\<close> on a malformed string. A value that is not a string has no
  \<open>replace\<close> method, which is the \<open>AttributeError\<close>.
\<close>

definition clean_id :: "(string \<Rightarrow> uuid option) \<Rightarrow> pyval \<Rightarrow> pyval" where
  "clean_id uuid_of_str v =
     (if \<not> truthy v then PNone
      else case v of
             PStr s \<Rightarrow> (case uuid_of_str s of Some u \<Rightarrow> PUuid u | None \<Rightarrow> v)
           | _ \<Rightarrow> v)"

definition clean_item :: "(string \<Rightarrow> uuid option) \<Rightarrow> string \<times> pyval \<Rightarrow> string \<times> pyval" where
  "clean_item uuid_of_str kv =
     (if List.member [''post_id'', ''comment_id'', ''author_id'', ''event_id''] (fst kv)
      then (fst kv, clean_id uuid_of_str (snd kv)) else kv)"

definition event_classes :: "string list" where
  "event_classes = [''PostCreated'', ''PostPublished'', ''PostArchived'', ''CommentAdded'']"

text \<open>
  \<open>_reconstruct_event\<close>. \<open>None\<close> is returned silently for an event type without a
  class, and with a warning when the body raises (the event type is not hashable,
  \<open>data\<close> is not a dict, or the constructor refuses a keyword).
\<close>

definition reconstruct_event ::
  "(string \<Rightarrow> uuid option) \<Rightarrow> pyval \<Rightarrow> (string \<times> pyval) list \<Rightarrow> worker
     \<Rightarrow> domain_event option \<times> worker" where
  "reconstruct_event uuid_of_str event_type payload s =
     (let data = dict_get payload ''data'' (PDict [])
      in case event_type of
           PStr et \<Rightarrow>
             (if \<not> List.member event_classes et then (None, s)
              else case data of
                     PDict items \<Rightarrow>
                       (let clean_data = map (clean_item uuid_of_str) items;
                            clean_data = dict_pop ''event_id'' clean_data;
                            clean_data = dict_pop ''occurred_at'' clean_data
                        in case construct_event et clean_data (sys s) of
                             (Some ev, w1) \<Rightarrow> (Some ev, s\<lparr>sys := w1\<rparr>)
                           | (None, w1) \<Rightarrow>
                               (None, log_to WARNING (ReconstructFailed event_type) (s\<lparr>sys := w1\<rparr>)))
                   | _ \<Rightarrow> (None, log_to WARNING (ReconstructFailed event_type) s))
         | PList l \<Rightarrow> (None, log_to WARNING (ReconstructFailed event_type) s)
         | PDict d \<Rightarrow> (None, log_to WARNING (ReconstructFailed event_type) s)
         | _ \<Rightarrow> (None, s))"

text \<open>
  \<open>_build_handler\<close>: the four handler classes of the handlers module; any other name
  is not an attribute of the module. The collaborators it passes to a handler (the cache
  service) are taken to be available.
\<close>

definition handler_classes :: "string list" where
  "handler_classes = [''OnPostPublished'', ''OnCommentAdded'', ''OnPostArchived'', ''OnPostCreated'']"

definition build_handler :: "string \<Rightarrow> task_exc + string" where
  "build_handler class_name =
     (if List.member handler_classes class_name then Inr class_name
      else Inl (MissingHandlerClass class_name))"

text \<open>
  \<open>handler.handle(event)\<close>: the invocation is recorded; whether it raises is decided by
  the collaborators the handler calls.
\<close>

definition handle :: "string \<Rightarrow> domain_event \<Rightarrow> worker \<Rightarrow> task_exc option \<times> worker" where
  "handle handler ev s =
     (let i = length (handled s);
          s1 = s\<lparr>handled := handled s @ [(handler, ev)]\<rparr>
      in (if raises s i then Some (HandlerRaised i) else None, s1))"

datatype task_result = Ok pyval string | Skipped pyval

datatype task_raise = Retry nat | Failure task_exc

definition max_retries :: nat where
  "max_retries = 3"

definition default_retry_delay :: nat where
  "default_retry_delay = 30"

text \<open>
  \<open>self.retry(exc=exc)\<close> is the task framework's (Celery's \<open>Task.retry\<close>), not code of
  the repository. With \<open>retries\<close> the number of retries this message has already had
  (\<open>self.request.retries\<close>, 0 at the first delivery): when \<open>retries + 1\<close> exceeds
  \<open>max_retries\<close> the original exception is raised and the task has failed; otherwise the
  task is scheduled again after \<open>default_retry_delay\<close> and \<open>Retry\<close> is raised.
\<close>

definition retry :: "nat \<Rightarrow> task_exc \<Rightarrow> worker \<Rightarrow> task_raise \<times> worker" where
  "retry retries exc s =
     (if Suc retries > max_retries then (Failure exc, s)
      else (Retry default_retry_delay, s\<lparr>scheduled := scheduled s @ [default_retry_delay]\<rparr>))"

text \<open>The \<open>try\<close> block of \<open>dispatch_domain_event\<close>.\<close>

definition dispatch_try ::
  "(string \<Rightarrow> uuid option) \<Rightarrow> pyval \<Rightarrow> string \<Rightarrow> (string \<times> pyval) list \<Rightarrow> worker
     \<Rightarrow> (task_exc + task_result) \<times> worker" where
  "dispatch_try uuid_of_str event_type class_name payload s =
     (case build_handler class_name of
        Inl e \<Rightarrow> (Inl e, s)
      | Inr handler \<Rightarrow>
          (case reconstruct_event uuid_of_str event_type payload s of
             (Some ev, s1) \<Rightarrow>
               (case handle handler ev s1 of
                  (Some e, s2) \<Rightarrow> (Inl e, s2)
                | (None, s2) \<Rightarrow>
                    (Inr (Ok event_type class_name),
                     log_to INFO (Processed event_type class_name) s2))
           | (None, s1) \<Rightarrow>
               (Inr (Ok event_type class_name),
                log_to INFO (Processed event_type class_name)
                  (log_to WARNING (RawPayload class_name) s1))))"

definition dispatch_domain_event ::
  "(string \<Rightarrow> uuid option) \<Rightarrow> nat \<Rightarrow> (string \<times> pyval) list \<Rightarrow> worker
     \<Rightarrow> (task_raise + task_result) \<times> worker" where
  "dispatch_domain_event uuid_of_str retries payload s =
     (let event_type = dict_get payload ''event_type'' (PStr []);
          event_id = dict_get payload ''event_id'' (PStr ''N/A'');
          s1 = log_to INFO (Processing event_type event_id) s
      in case handler_map_get event_type of
           Inl e \<Rightarrow> (Inl (Failure e), s1)
         | Inr None \<Rightarrow> (Inr (Skipped event_type), log_to WARNING (NoHandler event_type) s1)
         | Inr (Some (module_path, class_name)) \<Rightarrow>
             (case dispatch_try uuid_of_str event_type class_name payload s1 of
                (Inr r, s2) \<Rightarrow> (Inr r, s2)
              | (Inl exc, s2) \<Rightarrow>
                  (case retry retries exc (log_to ERROR (ErrorProcessing event_type exc) s2) of
                     (r, s3) \<Rightarrow> (Inl r, s3))))"

text \<open>
  The worker runs the task again each time it raises \<open>Retry\<close>, with the retry count of
  the request one higher. A task raises \<open>Retry\<close> only while retries are left, which
  is why the loop ends.
\<close>

lemma retry_Retry: "retry r e s = (Retry d, s1) \<Longrightarrow> r < max_retries"
  by (auto simp: retry_def split: if_splits)

lemma dispatch_Retry:
  "dispatch_domain_event P r payload s = (Inl (Retry d), s1) \<Longrightarrow> r < max_retries"
  by (auto simp: dispatch_domain_event_def Let_def dest: retry_Retry
      split: sum.splits option.splits prod.splits)

function run_task ::
  "(string \<Rightarrow> uuid option) \<Rightarrow> nat \<Rightarrow> (string \<times> pyval) list \<Rightarrow> worker
     \<Rightarrow> (task_exc + task_result) \<times> worker" where
  "run_task uuid_of_str retries payload s =
     (case dispatch_domain_event uuid_of_str retries payload s of
        (Inl (Retry countdown), s1) \<Rightarrow> run_task uuid_of_str (Suc retries) payload s1
      | (Inl (Failure exc), s1) \<Rightarrow> (Inl exc, s1)
      | (Inr r, s1) \<Rightarrow> (Inr r, s1))"
  by pat_completeness auto
termination
  by (relation "measure (\<lambda>(P, r, payload, s). max_retries - r)")
     (auto dest!: dispatch_Retry [OF sym])

declare run_task.simps [simp del]

section \<open>The envelope encoder\<close>

text \<open>
  Modelled from the spec: the queue-backed event bus that serialises an event into an
  envelope (\<open>CeleryEventBus\<close>) is not among the source files. By the spec an envelope is
  \<open>{event_type, event_id, occurred_at, data}\<close>, \<open>data\<close> maps each payload field name to
  its value, and an identifier is encoded as its canonical string. The renderings of an
  identifier and of a timestamp are parameters.
\<close>

definition encode_id :: "(uuid \<Rightarrow> string) \<Rightarrow> pyval \<Rightarrow> pyval" where
  "encode_id str_of_uuid v = (case v of PUuid u \<Rightarrow> PStr (str_of_uuid u) | _ \<Rightarrow> v)"

fun event_type_name :: "domain_event \<Rightarrow> string" where
  "event_type_name (PostCreated eid ts p a t) = ''PostCreated''"
| "event_type_name (PostPublished eid ts p sl) = ''PostPublished''"
| "event_type_name (PostArchived eid ts p) = ''PostArchived''"
| "event_type_name (CommentAdded eid ts p c a) = ''CommentAdded''"
| "event_type_name (PostUpdated eid ts p t) = ''PostUpdated''"

fun event_meta :: "domain_event \<Rightarrow> uuid \<times> timestamp" where
  "event_meta (PostCreated eid ts p a t) = (eid, ts)"
| "event_meta (PostPublished eid ts p sl) = (eid, ts)"
| "event_meta (PostArchived eid ts p) = (eid, ts)"
| "event_meta (CommentAdded eid ts p c a) = (eid, ts)"
| "event_meta (PostUpdated eid ts p t) = (eid, ts)"

text \<open>The payload fields of an event, by name.\<close>

fun event_fields :: "domain_event \<Rightarrow> (string \<times> pyval) list" where
  "event_fields (PostCreated eid ts p a t) = [(''post_id'', p), (''author_id'', a), (''title'', t)]"
| "event_fields (PostPublished eid ts p sl) = [(''post_id'', p), (''slug'', sl)]"
| "event_fields (PostArchived eid ts p) = [(''post_id'', p)]"
| "event_fields (CommentAdded eid ts p c a) =
     [(''post_id'', p), (''comment_id'', c), (''author_id'', a)]"
| "event_fields (PostUpdated eid ts p t) = [(''post_id'', p), (''new_title'', t)]"

definition encode_field :: "(uuid \<Rightarrow> string) \<Rightarrow> string \<times> pyval \<Rightarrow> string \<times> pyval" where
  "encode_field str_of_uuid kv =
     (if List.member [''post_id'', ''comment_id'', ''author_id''] (fst kv)
      then (fst kv, encode_id str_of_uuid (snd kv)) else kv)"

definition encode_event ::
  "(uuid \<Rightarrow> string) \<Rightarrow> (timestamp \<Rightarrow> string) \<Rightarrow> domain_event \<Rightarrow> (string \<times> pyval) list" where
  "encode_event str_of_uuid str_of_time ev =
     [(''event_type'', PStr (event_type_name ev)),
      (''event_id'', PStr (str_of_uuid (fst (event_meta ev)))),
      (''occurred_at'', PStr (str_of_time (snd (event_meta ev)))),
      (''data'', PDict (map (encode_field str_of_uuid) (event_fields ev)))]"

section \<open>Sequences of calls\<close>

text \<open>
  A caller's sequence of calls on one aggregate: each call is run on the aggregate and the
  world the call before left, and the exception it raised, if any, is noted.
\<close>

datatype command =
    Publish
  | Archive uuid
  | Update title content uuid
  | AddComment string uuid
  | RemoveComment uuid uuid
  | AddTags "string list"
  | SetCategory "uuid option"
  | PullEvents

definition raised :: "error + 'a \<Rightarrow> error option" where
  "raised r = (case r of Inl e \<Rightarrow> Some e | Inr v \<Rightarrow> None)"

fun call :: "command \<Rightarrow> post_aggregate \<Rightarrow> world \<Rightarrow> error option \<times> post_aggregate \<times> world" where
  "call Publish a w = (case publish a w of (r, a', w') \<Rightarrow> (raised r, a', w'))"
| "call (Archive u) a w = (case archive u a w of (r, a', w') \<Rightarrow> (raised r, a', w'))"
| "call (Update t c u) a w = (case update t c u a w of (r, a', w') \<Rightarrow> (raised r, a', w'))"
| "call (AddComment b u) a w = (case add_comment b u a w of (r, a', w') \<Rightarrow> (raised r, a', w'))"
| "call (RemoveComment cid u) a w = (case remove_comment cid u a of (r, a') \<Rightarrow> (raised r, a', w))"
| "call (AddTags ts) a w = (None, add_tags ts a, w)"
| "call (SetCategory cat) a w = (None, agg_set_category cat a, w)"
| "call PullEvents a w = (None, snd (pull_events a), w)"

fun calls ::
  "command list \<Rightarrow> post_aggregate \<Rightarrow> world \<Rightarrow> error option list \<times> post_aggregate \<times> world" where
  "calls [] a w = ([], a, w)"
| "calls (c # cs) a w =
     (case call c a w of
        (r, a1, w1) \<Rightarrow> (case calls cs a1 w1 of (rs, a2, w2) \<Rightarrow> (r # rs, a2, w2)))"

text \<open>The calls that an archived post rejects.\<close>

fun rejected_when_archived :: "command \<Rightarrow> bool" where
  "rejected_when_archived Publish = True"
| "rejected_when_archived (Archive u) = True"
| "rejected_when_archived (Update t c u) = True"
| "rejected_when_archived (AddComment b u) = True"
| "rejected_when_archived c = False"

section \<open>Example values\<close>

text \<open>
  A parser for identifiers written as 32 lower-case hexadecimal digits with optional
  hyphens, used where an example needs a concrete parser.
\<close>

definition hex_value :: "char \<Rightarrow> nat option" where
  "hex_value c =
     (let n = (of_char c :: nat)
      in if 48 \<le> n \<and> n \<le> 57 then Some (n - 48)
         else if 97 \<le> n \<and> n \<le> 102 then Some (n - 87)
         else None)"

fun hex_number :: "nat \<Rightarrow> string \<Rightarrow> nat option" where
  "hex_number acc [] = Some acc"
| "hex_number acc (c # cs) =
     (case hex_value c of None \<Rightarrow> None | Some d \<Rightarrow> hex_number (16 * acc + d) cs)"

definition hex_uuid :: "string \<Rightarrow> uuid option" where
  "hex_uuid s =
     (let h = filter (\<lambda>c. c \<noteq> CHR ''-'') s
      in if length h \<noteq> 32 then None else hex_number 0 h)"

definition example_world :: world where
  "example_world =
     \<lparr>clock = (\<lambda>n. 1000 + n), clock_reads = 0, uuid_source = (\<lambda>n. 500 + n), uuid_reads = 0\<rparr>"

definition example_post :: "string \<Rightarrow> post_status \<Rightarrow> post" where
  "example_post c st =
     \<lparr>post_id = 1, title = Title ''Hello World'', slug = Slug ''hello-world'',
      content = Content c, author_id = 7, category_id = None, status = st, tags = [],
      created_at = 10, updated_at = 10, published_at = None\<rparr>"

definition example_comment :: "uuid \<Rightarrow> uuid \<Rightarrow> comment" where
  "example_comment cid author =
     \<lparr>comment_id = cid, body = ''nice post'', comment_author_id = author,
      comment_created_at = 20, is_deleted = False\<rparr>"

definition example_aggregate :: "string \<Rightarrow> post_status \<Rightarrow> post_aggregate" where
  "example_aggregate c st =
     \<lparr>agg_id = 1, post = example_post c st,
      comments_list = [example_comment 3 8, example_comment 4 9], domain_events = []\<rparr>"

definition long_content :: string where
  "long_content = replicate 100 (CHR ''x'')"

definition short_content :: string where
  "short_content = replicate 50 (CHR ''x'') @ replicate 60 (CHR '' '')"

definition example_worker :: "(nat \<Rightarrow> bool) \<Rightarrow> worker" where
  "example_worker r =
     \<lparr>sys = example_world, logged = [], handled = [], scheduled = [], raises = r\<rparr>"

definition always_raises :: "nat \<Rightarrow> bool" where
  "always_raises i = True"

definition raises_twice :: "nat \<Rightarrow> bool" where
  "raises_twice i = (i < 2)"

text \<open>The canonical strings of the identifiers the examples use.\<close>

definition example_uuid_str :: "uuid \<Rightarrow> string" where
  "example_uuid_str u =
     (if u = 1 then ''00000000-0000-0000-0000-000000000001''
      else if u = 3 then ''00000000-0000-0000-0000-000000000003''
      else if u = 7 then ''00000000-0000-0000-0000-000000000007''
      else ''00000000-0000-0000-0000-000000000000'')"

definition example_time_str :: "timestamp \<Rightarrow> string" where
  "example_time_str t = ''2025-01-01T00:00:00Z''"

definition published_envelope :: "(string \<times> pyval) list" where
  "published_envelope =
     [(''event_type'', PStr ''PostPublished''),
      (''event_id'', PStr ''00000000-0000-0000-0000-0000000001f4''),
      (''occurred_at'', PStr ''2025-01-01T00:00:00Z''),
      (''data'', PDict [(''post_id'', PStr ''00000000-0000-0000-0000-000000000001''),
                        (''slug'', PStr ''hello-world'')])]"

definition updated_envelope :: "(string \<times> pyval) list" where
  "updated_envelope =
     [(''event_type'', PStr ''PostUpdated''),
      (''event_id'', PStr ''00000000-0000-0000-0000-0000000001f5''),
      (''occurred_at'', PStr ''2025-01-01T00:00:00Z''),
      (''data'', PDict [(''post_id'', PStr ''00000000-0000-0000-0000-000000000001''),
                        (''new_title'', PStr ''Hello Again'')])]"

section \<open>Draining the pending events\<close>

text \<open>
  C6: \<open>pull_events\<close> returns the buffered events in the order they were recorded and
  leaves the buffer empty: a second call right after the first returns the empty list, a
  call on an aggregate whose buffer is empty returns the empty list, an event recorded
  later comes after the ones recorded before, and nothing but the buffer changes.
\<close>

theorem pull_events_drains:
  "fst (pull_events a) = domain_events a
   \<and> domain_events (snd (pull_events a)) = []
   \<and> fst (pull_events (snd (pull_events a))) = []
   \<and> fst (pull_events (a\<lparr>domain_events := []\<rparr>)) = []
   \<and> fst (pull_events (record_event e a)) = fst (pull_events a) @ [e]
   \<and> post (snd (pull_events a)) = post a
   \<and> comments_list (snd (pull_events a)) = comments_list a
   \<and> agg_id (snd (pull_events a)) = agg_id a"
  by (simp add: pull_events_def record_event_def)


section \<open>Publishing\<close>

lemma strip_long_content: "length (strip long_content) = 100"
  by code_simp

lemma strip_short_content: "length (strip short_content) = 50 \<and> length short_content = 110"
  by code_simp

text \<open>
  C1: \<open>publish\<close> succeeds exactly when the status is Draft and the trimmed content has
  at least 100 characters. It fails with \<open>PostAlreadyPublishedError\<close> on a published
  post, with \<open>PostArchivedError\<close> on an archived post, and with
  \<open>InvalidPostContentError\<close> (the length of the untrimmed content, and 100) on a draft
  whose trimmed content is shorter; a failure changes nothing. On success the status is
  Published, \<open>published_at\<close> is set, and exactly one \<open>PostPublished\<close> event with the
  post's identifier and slug is appended to the pending events.
\<close>

theorem publish_spec:
  "(isl (fst (publish a w)) \<longleftrightarrow>
      \<not> (status (post a) = DRAFT \<and> 100 \<le> length (strip (content_value (content (post a))))))
   \<and> (status (post a) = PUBLISHED \<longrightarrow> fst (publish a w) = Inl PostAlreadyPublishedError)
   \<and> (status (post a) = ARCHIVED \<longrightarrow> fst (publish a w) = Inl (PostArchivedError ''publicar''))
   \<and> (status (post a) = DRAFT \<and> length (strip (content_value (content (post a)))) < 100 \<longrightarrow>
        fst (publish a w) =
          Inl (InvalidPostContentError (length (content_value (content (post a)))) 100))
   \<and> (isl (fst (publish a w)) \<longrightarrow> snd (publish a w) = (a, w))
   \<and> (\<not> isl (fst (publish a w)) \<longrightarrow>
        (let a' = fst (snd (publish a w)) in
           status (post a') = PUBLISHED
           \<and> published_at (post a') = Some (clock w (Suc (clock_reads w)))
           \<and> updated_at (post a') = clock w (clock_reads w)
           \<and> domain_events a' = domain_events a @
                [PostPublished (uuid_source w (uuid_reads w)) (clock w (Suc (Suc (clock_reads w))))
                   (PUuid (agg_id a)) (PStr (slug_value (slug (post a))))]))"
  by (cases "status (post a)")
     (auto simp: publish_def is_published_def is_archived_def is_publishable_def
        MIN_LENGTH_TO_PUBLISH_def set_status_def set_published_at_def now_def uuid4_def
        event_defaults_def record_event_def Let_def split: prod.splits)

theorem publish_spec_witness:
  "fst (publish (example_aggregate long_content DRAFT) example_world) = Inr ()
   \<and> status (post (fst (snd (publish (example_aggregate long_content DRAFT) example_world)))) = PUBLISHED
   \<and> published_at (post (fst (snd (publish (example_aggregate long_content DRAFT) example_world)))) = Some 1001
   \<and> domain_events (fst (snd (publish (example_aggregate long_content DRAFT) example_world)))
       = [PostPublished 500 1002 (PUuid 1) (PStr ''hello-world'')]
   \<and> fst (publish (example_aggregate long_content PUBLISHED) example_world) = Inl PostAlreadyPublishedError
   \<and> fst (publish (example_aggregate long_content ARCHIVED) example_world) = Inl (PostArchivedError ''publicar'')
   \<and> fst (publish (example_aggregate short_content DRAFT) example_world) = Inl (InvalidPostContentError 110 100)"
proof -
  let ?ok = "example_aggregate long_content DRAFT"
  have ok: "status (post ?ok) = DRAFT \<and> 100 \<le> length (strip (content_value (content (post ?ok))))"
    by (simp add: example_aggregate_def example_post_def strip_long_content)
  have sh: "status (post (example_aggregate short_content DRAFT)) = DRAFT
      \<and> length (strip (content_value (content (post (example_aggregate short_content DRAFT))))) < 100
      \<and> length (content_value (content (post (example_aggregate short_content DRAFT)))) = 110"
    by (simp add: example_aggregate_def example_post_def strip_short_content)
  have "\<not> isl (fst (publish ?ok example_world))"
    using publish_spec [of ?ok example_world] ok by blast
  moreover from this have "fst (publish ?ok example_world) = Inr ()"
    by (cases "fst (publish ?ok example_world)") auto
  moreover have "fst (publish (example_aggregate short_content DRAFT) example_world) = Inl (InvalidPostContentError 110 100)"
    using publish_spec [of "example_aggregate short_content DRAFT" example_world] sh by simp
  ultimately show ?thesis
    using publish_spec [of ?ok example_world]
      publish_spec [of "example_aggregate long_content PUBLISHED" example_world]
      publish_spec [of "example_aggregate long_content ARCHIVED" example_world]
    by (simp add: Let_def example_aggregate_def example_post_def example_world_def)
qed


section \<open>Removing a comment\<close>


lemma first_index_Some:
  "first_index P xs = Some i \<Longrightarrow> i < length xs \<and> P (xs ! i) \<and> (\<forall>j<i. \<not> P (xs ! j))"
proof (induction xs arbitrary: i)
  case Nil
  then show ?case by simp
next
  case (Cons x xs)
  show ?case
  proof (cases "P x")
    case True
    with Cons.prems show ?thesis by simp
  next
    case False
    with Cons.prems obtain k where k: "first_index P xs = Some k" "i = Suc k"
      by auto
    from Cons.IH [OF k(1)] False k(2) show ?thesis
      by (auto simp: nth_Cons split: nat.splits)
  qed
qed




section \<open>Archived is terminal\<close>

lemma publish_archived:
  "status (post a) = ARCHIVED \<Longrightarrow> publish a w = (Inl (PostArchivedError ''publicar''), a, w)"
  by (simp add: publish_def is_published_def is_archived_def)

lemma update_archived:
  "status (post a) = ARCHIVED \<Longrightarrow>
   update t c u a w =
     (Inl (if u \<noteq> author_id (post a) then UnauthorizedPostActionError ''editar''
           else PostArchivedError ''editar''), a, w)"
  by (simp add: update_def is_archived_def)

lemma archive_archived:
  "status (post a) = ARCHIVED \<Longrightarrow>
   archive u a w =
     (Inl (if u \<noteq> author_id (post a) then UnauthorizedPostActionError ''archivar''
           else PostArchivedError ''archivar nuevamente''), a, w)"
  by (simp add: archive_def is_archived_def)

lemma add_comment_archived:
  "status (post a) = ARCHIVED \<Longrightarrow>
   add_comment b u a w =
     (Inl (CommentNotAllowedError (''el post est'' @ [CHR 0xE1] @ '' archivado'')), a, w)"
  by (simp add: add_comment_def is_archived_def)

lemma remove_comment_post: "post (snd (remove_comment cid u a)) = post a"
  by (simp add: remove_comment_def split: option.splits sum.splits)

lemma add_tag_status: "status (add_tag t p) = status p"
  by (simp add: add_tag_def Let_def)

lemma fold_add_tag_status: "status (fold add_tag ts p) = status p"
  by (induction ts arbitrary: p) (simp_all add: add_tag_status)

lemma call_archived:
  assumes "status (post a) = ARCHIVED"
  shows "status (post (fst (snd (call c a w)))) = ARCHIVED"
    and "rejected_when_archived c \<Longrightarrow> fst (call c a w) \<noteq> None"
  using assms
  by (cases c;
      simp add: publish_archived update_archived archive_archived add_comment_archived
        raised_def remove_comment_post add_tags_def fold_add_tag_status agg_set_category_def
        set_category_def pull_events_def split: prod.splits;
      metis remove_comment_post snd_conv)+

lemma calls_length: "length (fst (calls cs a w)) = length cs"
proof (induction cs arbitrary: a w)
  case Nil
  then show ?case by simp
next
  case (Cons c cs)
  obtain r a1 w1 where c: "call c a w = (r, a1, w1)"
    by (cases "call c a w") auto
  obtain rs a2 w2 where cs: "calls cs a1 w1 = (rs, a2, w2)"
    by (cases "calls cs a1 w1") auto
  from Cons.IH [of a1 w1] c cs show ?case by simp
qed

lemma calls_archived:
  "status (post a) = ARCHIVED \<Longrightarrow>
   status (post (fst (snd (calls cs a w)))) = ARCHIVED
   \<and> (\<forall>i < length cs. rejected_when_archived (cs ! i) \<longrightarrow> fst (calls cs a w) ! i \<noteq> None)"
proof (induction cs arbitrary: a w)
  case Nil
  then show ?case by simp
next
  case (Cons c cs)
  obtain r a1 w1 where c: "call c a w = (r, a1, w1)"
    by (cases "call c a w") auto
  obtain rs a2 w2 where cs: "calls cs a1 w1 = (rs, a2, w2)"
    by (cases "calls cs a1 w1") auto
  from call_archived [OF Cons.prems, of c w] c
  have a1: "status (post a1) = ARCHIVED" and r: "rejected_when_archived c \<Longrightarrow> r \<noteq> None"
    by simp_all
  from Cons.IH [OF a1, of w1] cs
  have ih: "status (post a2) = ARCHIVED"
    "\<forall>i < length cs. rejected_when_archived (cs ! i) \<longrightarrow> rs ! i \<noteq> None"
    by simp_all
  show ?case
    using c cs ih r by (auto simp: nth_Cons split: nat.splits)
qed

text \<open>
  C5 (amended): on an archived post \<open>publish\<close> fails with \<open>PostArchivedError\<close>,
  \<open>add_comment\<close> fails with \<open>CommentNotAllowedError\<close>, and \<open>update\<close> fails with
  \<open>UnauthorizedPostActionError\<close> when the caller is not the author and with
  \<open>PostArchivedError\<close> when the caller is; each leaves the aggregate as it was. Through
  any sequence of calls the status stays Archived, and every \<open>publish\<close>, \<open>archive\<close>,
  \<open>update\<close> and \<open>add_comment\<close> in the sequence fails.
\<close>

theorem archived_is_terminal:
  assumes "status (post a) = ARCHIVED"
  shows "publish a w = (Inl (PostArchivedError ''publicar''), a, w)
    \<and> update t c u a w =
        (Inl (if u \<noteq> author_id (post a) then UnauthorizedPostActionError ''editar''
              else PostArchivedError ''editar''), a, w)
    \<and> add_comment b v a w =
        (Inl (CommentNotAllowedError (''el post est'' @ [CHR 0xE1] @ '' archivado'')), a, w)
    \<and> status (post (fst (snd (calls cs a w)))) = ARCHIVED
    \<and> length (fst (calls cs a w)) = length cs
    \<and> (\<forall>i < length cs. rejected_when_archived (cs ! i) \<longrightarrow> fst (calls cs a w) ! i \<noteq> None)"
  using assms calls_archived [OF assms, of cs w]
  by (simp add: publish_archived update_archived add_comment_archived calls_length)

theorem archived_is_terminal_witness:
  "status (post (example_aggregate long_content ARCHIVED)) = ARCHIVED
   \<and> fst (publish (example_aggregate long_content ARCHIVED) example_world)
       = Inl (PostArchivedError ''publicar'')
   \<and> fst (update (Title ''New Title'') (Content long_content) 7
            (example_aggregate long_content ARCHIVED) example_world)
       = Inl (PostArchivedError ''editar'')
   \<and> fst (add_comment ''hello'' 8 (example_aggregate long_content ARCHIVED) example_world)
       = Inl (CommentNotAllowedError (''el post est'' @ [CHR 0xE1] @ '' archivado''))
   \<and> status (post (fst (snd (calls [AddTags [''x''], Publish, Archive 7, PullEvents]
         (example_aggregate long_content ARCHIVED) example_world)))) = ARCHIVED
   \<and> fst (calls [AddTags [''x''], Publish, Archive 7, PullEvents]
         (example_aggregate long_content ARCHIVED) example_world) ! 1 \<noteq> None"
proof -
  let ?a = "example_aggregate long_content ARCHIVED"
  let ?cs = "[AddTags [''x''], Publish, Archive 7, PullEvents]"
  have h: "status (post ?a) = ARCHIVED"
    by (simp add: example_aggregate_def example_post_def)
  have au: "author_id (post ?a) = 7"
    by (simp add: example_aggregate_def example_post_def)
  from archived_is_terminal [where a = ?a and w = example_world and t = "Title ''New Title''"
      and c = "Content long_content" and u = 7 and b = "''hello''" and v = 8 and cs = ?cs, OF h]
  show ?thesis using h au by simp
qed

theorem update_archived_counterexample:
  "status (post (example_aggregate long_content ARCHIVED)) = ARCHIVED
   \<and> fst (update (Title ''New Title'') (Content long_content) 8
            (example_aggregate long_content ARCHIVED) example_world)
       = Inl (UnauthorizedPostActionError ''editar'')"
  by (simp add: update_def example_aggregate_def example_post_def)


section \<open>The two views of the comments\<close>

lemma remove_comment_Inr:
  assumes "remove_comment cid u a = (Inr (), a')"
  shows "\<exists>i. first_index (\<lambda>c. comment_id c = cid) (comments_list a) = Some i
           \<and> a' = a\<lparr>comments_list := (comments_list a)
                      [i := (comments_list a ! i)\<lparr>is_deleted := True, body := tombstone\<rparr>]\<rparr>"
  using assms
  by (auto simp: remove_comment_def soft_delete_def split: option.splits if_splits)

lemma deleted_not_listed:
  assumes d: "distinct (map comment_id cs)" and i: "i < length cs" and c: "is_deleted c'"
    and id: "comment_id c' = comment_id (cs ! i)"
  shows "comment_id (cs ! i) \<notin> set (map comment_id (filter (\<lambda>c. \<not> is_deleted c) (cs[i := c'])))"
proof
  assume "comment_id (cs ! i) \<in> set (map comment_id (filter (\<lambda>c. \<not> is_deleted c) (cs[i := c'])))"
  then obtain x where x: "x \<in> set (cs[i := c'])" "\<not> is_deleted x" "comment_id x = comment_id (cs ! i)"
    by auto
  from x(1) obtain k where k: "k < length cs" "x = cs[i := c'] ! k"
    by (auto simp: in_set_conv_nth)
  from k x(2) c have ki: "k \<noteq> i" by (auto simp: nth_list_update)
  with k have "x = cs ! k" by simp
  with x(3) have "map comment_id cs ! k = map comment_id cs ! i"
    using k(1) i by simp
  moreover have "k < length (map comment_id cs)" "i < length (map comment_id cs)"
    using k(1) i by simp_all
  ultimately have "k = i"
    using d nth_eq_iff_index_eq by blast
  with ki show False by simp
qed

text \<open>
  C9: \<open>comments\<close> is the list of the comments whose deleted flag is unset, in the order
  of the collection, and \<open>all_comments\<close> is the whole collection. After a
  \<open>remove_comment\<close> that succeeded, the comment it marked is in \<open>all_comments\<close>, at the
  place it had, and not in \<open>comments\<close>; the identifiers in \<open>all_comments\<close> are the ones
  from before; and when the identifiers of the collection are distinct, no comment of
  \<open>comments\<close> has the removed identifier. (Both views are values here: a caller that
  changes what it got does not change the aggregate.)
\<close>

theorem comments_views:
  "comments a = filter (\<lambda>c. \<not> is_deleted c) (all_comments a)
   \<and> all_comments a = comments_list a
   \<and> set (comments a) = {c. c \<in> set (all_comments a) \<and> \<not> is_deleted c}
   \<and> (remove_comment cid u a = (Inr (), a') \<longrightarrow>
        (\<exists>i < length (all_comments a).
            comment_id (all_comments a ! i) = cid
          \<and> all_comments a' =
              (all_comments a)[i := (all_comments a ! i)\<lparr>is_deleted := True, body := tombstone\<rparr>]
          \<and> (all_comments a ! i)\<lparr>is_deleted := True, body := tombstone\<rparr> \<in> set (all_comments a')
          \<and> (all_comments a ! i)\<lparr>is_deleted := True, body := tombstone\<rparr> \<notin> set (comments a'))
        \<and> map comment_id (all_comments a') = map comment_id (all_comments a)
        \<and> (distinct (map comment_id (all_comments a)) \<longrightarrow>
              cid \<notin> set (map comment_id (comments a'))))"
proof (intro conjI impI)
  show "comments a = filter (\<lambda>c. \<not> is_deleted c) (all_comments a)"
    by (simp add: comments_def all_comments_def)
  show "all_comments a = comments_list a"
    by (simp add: all_comments_def)
  show "set (comments a) = {c. c \<in> set (all_comments a) \<and> \<not> is_deleted c}"
    by (auto simp: comments_def all_comments_def)
next
  assume r: "remove_comment cid u a = (Inr (), a')"
  let ?cs = "comments_list a"
  from remove_comment_Inr [OF r] obtain i where
    fi: "first_index (\<lambda>c. comment_id c = cid) ?cs = Some i" and
    a': "a' = a\<lparr>comments_list := ?cs[i := (?cs ! i)\<lparr>is_deleted := True, body := tombstone\<rparr>]\<rparr>"
    by blast
  from first_index_Some [OF fi] have i: "i < length ?cs" and id: "comment_id (?cs ! i) = cid"
    by simp_all
  let ?c' = "(?cs ! i)\<lparr>is_deleted := True, body := tombstone\<rparr>"
  have in_all: "?c' \<in> set (all_comments a')"
    using i by (simp add: a' all_comments_def set_update_memI)
  have not_in: "?c' \<notin> set (comments a')"
    by (simp add: comments_def)
  from i id a' in_all not_in
  show "\<exists>i < length (all_comments a).
            comment_id (all_comments a ! i) = cid
          \<and> all_comments a' =
              (all_comments a)[i := (all_comments a ! i)\<lparr>is_deleted := True, body := tombstone\<rparr>]
          \<and> (all_comments a ! i)\<lparr>is_deleted := True, body := tombstone\<rparr> \<in> set (all_comments a')
          \<and> (all_comments a ! i)\<lparr>is_deleted := True, body := tombstone\<rparr> \<notin> set (comments a')"
    by (intro exI [of _ i]) (simp add: all_comments_def)
  show "map comment_id (all_comments a') = map comment_id (all_comments a)"
    using i by (simp add: a' all_comments_def map_update list_update_same_conv)
  assume d: "distinct (map comment_id (all_comments a))"
  from deleted_not_listed [of ?cs i ?c'] d i id
  show "cid \<notin> set (map comment_id (comments a'))"
    by (simp add: a' comments_def all_comments_def)
qed

theorem comments_views_witness:
  "remove_comment 4 9 (example_aggregate long_content DRAFT)
     = (Inr (), (example_aggregate long_content DRAFT)
          \<lparr>comments_list := [example_comment 3 8,
               (example_comment 4 9)\<lparr>is_deleted := True, body := tombstone\<rparr>]\<rparr>)
   \<and> distinct (map comment_id (all_comments (example_aggregate long_content DRAFT)))
   \<and> 4 \<in> set (map comment_id (comments (example_aggregate long_content DRAFT)))
   \<and> 4 \<notin> set (map comment_id (comments ((example_aggregate long_content DRAFT)
          \<lparr>comments_list := [example_comment 3 8,
               (example_comment 4 9)\<lparr>is_deleted := True, body := tombstone\<rparr>]\<rparr>)))
   \<and> map comment_id (all_comments ((example_aggregate long_content DRAFT)
          \<lparr>comments_list := [example_comment 3 8,
               (example_comment 4 9)\<lparr>is_deleted := True, body := tombstone\<rparr>]\<rparr>)) = [3, 4]"
proof -
  let ?a = "example_aggregate long_content DRAFT"
  let ?a' = "?a\<lparr>comments_list := [example_comment 3 8,
               (example_comment 4 9)\<lparr>is_deleted := True, body := tombstone\<rparr>]\<rparr>"
  have r: "remove_comment 4 9 ?a = (Inr (), ?a')"
    by (simp add: remove_comment_def soft_delete_def example_aggregate_def example_comment_def)
  have d: "distinct (map comment_id (all_comments ?a))"
    by (simp add: all_comments_def example_aggregate_def example_comment_def)
  have before: "4 \<in> set (map comment_id (comments ?a))"
    by (simp add: comments_def example_aggregate_def example_comment_def)
  have ids: "map comment_id (all_comments ?a) = [3, 4]"
    by (simp add: all_comments_def example_aggregate_def example_comment_def)
  from comments_views [of ?a 4 9 ?a'] r d ids before show ?thesis
    by simp
qed


section \<open>Tags\<close>

text \<open>The normal form of a tag: lower case, trimmed.\<close>

lemma add_tag_tags:
  "tags (add_tag t p) =
     (if strip (lower t) \<noteq> [] \<and> strip (lower t) \<notin> set (tags p)
      then tags p @ [strip (lower t)] else tags p)"
  by (simp add: add_tag_def Let_def)







section \<open>Rebuilding an aggregate\<close>

lemma to_slug_hello: "to_slug (Title ''Hello World'') = Inr (Slug ''hello-world'')"
  by code_simp

lemma to_slug_accents:
  "to_slug (Title (''Caf'' @ [CHR 0xE9] @ ''  Ni'' @ [CHR 0xF1] @ ''o!'')) = Inr (Slug ''cafe-nino'')"
  by code_simp

lemma to_slug_punctuation: "to_slug (Title ''!!!'') = Inl (DomainError EmptySlug)"
  by code_simp

text \<open>
  C10: \<open>reconstitute\<close> takes no update timestamp and no slug. When it returns, the
  aggregate's \<open>updated_at\<close> is the creation timestamp supplied, its slug is the one
  \<open>to_slug\<close> computes from the title supplied, its pending events are empty, and the
  other fields are the arguments. It raises exactly when \<open>to_slug\<close> raises on the title,
  with the same error.
\<close>

theorem reconstitute_spec:
  "(reconstitute pid t c author st created published tgs cat cmts = Inr a \<longrightarrow>
      updated_at (post a) = created
      \<and> created_at (post a) = created
      \<and> to_slug t = Inr (slug (post a))
      \<and> domain_events a = []
      \<and> fst (pull_events a) = []
      \<and> agg_id a = pid \<and> post_id (post a) = pid \<and> title (post a) = t
      \<and> content (post a) = c \<and> author_id (post a) = author \<and> status (post a) = st
      \<and> published_at (post a) = published \<and> tags (post a) = tgs
      \<and> category_id (post a) = cat \<and> comments_list a = cmts)
   \<and> (reconstitute pid t c author st created published tgs cat cmts = Inl e
        \<longleftrightarrow> to_slug t = Inl e)"
  by (cases "to_slug t") (auto simp: reconstitute_def pull_events_def)

theorem reconstitute_spec_witness:
  "reconstitute 1 (Title ''Hello World'') (Content long_content) 7 PUBLISHED 10 (Some 15)
      [''a''] None [example_comment 3 8]
     = Inr \<lparr>agg_id = 1,
            post = \<lparr>post_id = 1, title = Title ''Hello World'', slug = Slug ''hello-world'',
                     content = Content long_content, author_id = 7, category_id = None,
                     status = PUBLISHED, tags = [''a''], created_at = 10, updated_at = 10,
                     published_at = Some 15\<rparr>,
            comments_list = [example_comment 3 8], domain_events = []\<rparr>
   \<and> reconstitute 1 (Title ''!!!'') (Content long_content) 7 DRAFT 10 None [] None []
     = Inl (DomainError EmptySlug)"
proof -
  obtain r where r: "reconstitute 1 (Title ''Hello World'') (Content long_content) 7 PUBLISHED 10
      (Some 15) [''a''] None [example_comment 3 8] = r"
    by simp
  have "\<not> isl r"
    using r by (auto simp: reconstitute_def to_slug_hello)
  then obtain a where a: "r = Inr a"
    by (cases r) auto
  from reconstitute_spec [of 1 "Title ''Hello World''" "Content long_content" 7 PUBLISHED 10
      "Some 15" "[''a'']" None "[example_comment 3 8]" a] r a
  have "updated_at (post a) = 10 \<and> created_at (post a) = 10
      \<and> slug (post a) = Slug ''hello-world'' \<and> domain_events a = []
      \<and> agg_id a = 1 \<and> post_id (post a) = 1 \<and> title (post a) = Title ''Hello World''
      \<and> content (post a) = Content long_content \<and> author_id (post a) = 7
      \<and> status (post a) = PUBLISHED \<and> published_at (post a) = Some 15
      \<and> tags (post a) = [''a''] \<and> category_id (post a) = None
      \<and> comments_list a = [example_comment 3 8]"
    by (simp add: to_slug_hello)
  then have "a = \<lparr>agg_id = 1,
            post = \<lparr>post_id = 1, title = Title ''Hello World'', slug = Slug ''hello-world'',
                     content = Content long_content, author_id = 7, category_id = None,
                     status = PUBLISHED, tags = [''a''], created_at = 10, updated_at = 10,
                     published_at = Some 15\<rparr>,
            comments_list = [example_comment 3 8], domain_events = []\<rparr>"
    by (cases a, cases "post a") auto
  moreover from reconstitute_spec [of 1 "Title ''!!!''" "Content long_content" 7 DRAFT 10 None
      "[]" None "[]" _ "DomainError EmptySlug"]
  have "reconstitute 1 (Title ''!!!'') (Content long_content) 7 DRAFT 10 None [] None []
     = Inl (DomainError EmptySlug)"
    by (simp add: to_slug_punctuation)
  ultimately show ?thesis using r a by simp
qed


section \<open>Dispatch and retry\<close>

lemma log_to_frame [simp]:
  "handled (log_to l m s) = handled s" "raises (log_to l m s) = raises s"
  "scheduled (log_to l m s) = scheduled s" "sys (log_to l m s) = sys s"
  by (simp_all add: log_to_def)

lemma reconstruct_event_frame:
  "reconstruct_event P et payload s = (ev, s1) \<Longrightarrow>
     handled s1 = handled s \<and> raises s1 = raises s \<and> scheduled s1 = scheduled s"
  by (auto simp: reconstruct_event_def Let_def split: pyval.splits if_splits prod.splits option.splits)

lemma construct_event_indep:
  "(fst (construct_event cls kw w) = None) = (fst (construct_event cls kw w') = None)"
  by (simp add: construct_event_def Let_def split: prod.splits)

lemma reconstruct_event_indep:
  "(fst (reconstruct_event P et payload s) = None) = (fst (reconstruct_event P et payload s') = None)"
  by (auto simp: reconstruct_event_def Let_def split: pyval.splits prod.splits option.splits)
     (metis construct_event_indep fst_conv option.distinct(1))+

lemma dispatch_try_effects:
  "dispatch_try P et cls payload s = (res, s1) \<Longrightarrow>
     length (handled s1) \<le> Suc (length (handled s)) \<and> raises s1 = raises s
     \<and> scheduled s1 = scheduled s"
  by (auto simp: dispatch_try_def handle_def Let_def
      dest!: reconstruct_event_frame split: sum.splits prod.splits option.splits if_splits)

lemma dispatch_effects:
  assumes "dispatch_domain_event P r payload s = (res, s1)"
  shows "length (handled s1) \<le> Suc (length (handled s))" and "raises s1 = raises s"
    and "scheduled s1 =
           scheduled s @ (case res of Inl (Retry d) \<Rightarrow> [default_retry_delay] | _ \<Rightarrow> [])"
    and "res = Inl (Retry d) \<Longrightarrow> d = default_retry_delay \<and> r < max_retries"
  using assms
  by (auto simp: dispatch_domain_event_def retry_def Let_def
      dest!: dispatch_try_effects split: sum.splits prod.splits option.splits if_splits)



text \<open>
  One delivery of an envelope whose event type has a handler and whose event can be
  reconstructed: the handler is invoked once; when it raises, the task asks for a
  retry while retries are left and fails with the handler's exception otherwise.
\<close>

lemma dispatch_step:
  assumes known: "handler_map_get (dict_get payload ''event_type'' (PStr [])) = Inr (Some (m, cls))"
    and rec: "fst (reconstruct_event P (dict_get payload ''event_type'' (PStr [])) payload s) \<noteq> None"
  shows "\<exists>s1. dispatch_domain_event P r payload s =
           (if raises s (length (handled s))
            then (if r < max_retries then Inl (Retry default_retry_delay)
                  else Inl (Failure (HandlerRaised (length (handled s)))))
            else Inr (Ok (dict_get payload ''event_type'' (PStr [])) cls), s1)
         \<and> length (handled s1) = Suc (length (handled s))
         \<and> raises s1 = raises s
         \<and> (raises s (length (handled s)) \<longrightarrow>
              (ERROR, ErrorProcessing (dict_get payload ''event_type'' (PStr []))
                        (HandlerRaised (length (handled s)))) \<in> set (logged s1))
         \<and> scheduled s1 = scheduled s @
              (if raises s (length (handled s)) \<and> r < max_retries then [default_retry_delay] else [])"
proof -
  let ?et = "dict_get payload ''event_type'' (PStr [])"
  let ?s0 = "log_to INFO (Processing ?et (dict_get payload ''event_id'' (PStr ''N/A''))) s"
  from known have cls: "build_handler cls = Inr cls"
    by (cases ?et)
       (auto simp: EVENT_HANDLER_MAP_def build_handler_def handler_classes_def split: if_splits)
  from rec reconstruct_event_indep [of P ?et payload s ?s0]
  obtain ev s1 where ev: "reconstruct_event P ?et payload ?s0 = (Some ev, s1)"
    by (cases "reconstruct_event P ?et payload ?s0") auto
  from reconstruct_event_frame [OF ev]
  have fr: "handled s1 = handled s" "raises s1 = raises s" "scheduled s1 = scheduled s"
    by simp_all
  show ?thesis
    using known cls ev fr
    by (simp add: dispatch_domain_event_def dispatch_try_def handle_def retry_def Let_def log_to_def)
qed

lemma run_task_unfold:
  "run_task P r payload s =
     (case dispatch_domain_event P r payload s of
        (Inl (Retry countdown), s1) \<Rightarrow> run_task P (Suc r) payload s1
      | (Inl (Failure exc), s1) \<Rightarrow> (Inl exc, s1)
      | (Inr res, s1) \<Rightarrow> (Inr res, s1))"
  by (rule run_task.simps)

lemma run_task_exhausts:
  assumes known: "handler_map_get (dict_get payload ''event_type'' (PStr [])) = Inr (Some (m, cls))"
  shows "max_retries - r = k \<Longrightarrow> r \<le> max_retries \<Longrightarrow>
     fst (reconstruct_event P (dict_get payload ''event_type'' (PStr [])) payload s) \<noteq> None \<Longrightarrow>
     \<forall>i \<le> k. raises s (length (handled s) + i) \<Longrightarrow>
     \<exists>s'. run_task P r payload s = (Inl (HandlerRaised (length (handled s) + k)), s')
       \<and> length (handled s') = length (handled s) + k + 1
       \<and> scheduled s' = scheduled s @ replicate k default_retry_delay
       \<and> (ERROR, ErrorProcessing (dict_get payload ''event_type'' (PStr []))
                   (HandlerRaised (length (handled s) + k))) \<in> set (logged s')"
proof (induction k arbitrary: r s)
  case 0
  then have r: "\<not> r < max_retries" and ra: "raises s (length (handled s))"
    by auto
  from dispatch_step [OF known "0.prems"(3), of r] r ra
  show ?case
    by (subst run_task_unfold) auto
next
  case (Suc k)
  then have r: "r < max_retries" and ra: "raises s (length (handled s))"
    by auto
  from dispatch_step [OF known Suc.prems(3), of r] r ra
  obtain s1 where s1: "dispatch_domain_event P r payload s = (Inl (Retry default_retry_delay), s1)"
    "length (handled s1) = Suc (length (handled s))" "raises s1 = raises s"
    "scheduled s1 = scheduled s @ [default_retry_delay]"
    by auto
  have rec1: "fst (reconstruct_event P (dict_get payload ''event_type'' (PStr [])) payload s1) \<noteq> None"
    using Suc.prems(3) reconstruct_event_indep [of P _ payload s s1] by simp
  have all1: "\<forall>i \<le> k. raises s1 (length (handled s1) + i)"
    using Suc.prems(4) s1(2,3) by auto
  have k1: "max_retries - Suc r = k" and r1: "Suc r \<le> max_retries"
    using Suc.prems(1) r by simp_all
  from Suc.IH [OF k1 r1 rec1 all1]
  obtain s' where "run_task P (Suc r) payload s1 = (Inl (HandlerRaised (length (handled s1) + k)), s')"
    "length (handled s') = length (handled s1) + k + 1"
    "scheduled s' = scheduled s1 @ replicate k default_retry_delay"
    "(ERROR, ErrorProcessing (dict_get payload ''event_type'' (PStr []))
        (HandlerRaised (length (handled s1) + k))) \<in> set (logged s')"
    by auto
  with s1 show ?case
    by (subst run_task_unfold) (simp add: replicate_append_same)
qed

lemma run_task_recovers:
  assumes known: "handler_map_get (dict_get payload ''event_type'' (PStr [])) = Inr (Some (m, cls))"
  shows "r + k \<le> max_retries \<Longrightarrow>
     fst (reconstruct_event P (dict_get payload ''event_type'' (PStr [])) payload s) \<noteq> None \<Longrightarrow>
     \<forall>i < k. raises s (length (handled s) + i) \<Longrightarrow>
     \<not> raises s (length (handled s) + k) \<Longrightarrow>
     \<exists>s'. run_task P r payload s = (Inr (Ok (dict_get payload ''event_type'' (PStr [])) cls), s')
       \<and> length (handled s') = length (handled s) + k + 1
       \<and> scheduled s' = scheduled s @ replicate k default_retry_delay"
proof (induction k arbitrary: r s)
  case 0
  from dispatch_step [OF known "0.prems"(2), of r] "0.prems"(4)
  show ?case
    by (subst run_task_unfold) auto
next
  case (Suc k)
  then have r: "r < max_retries" and ra: "raises s (length (handled s))"
    by auto
  from dispatch_step [OF known Suc.prems(2), of r] r ra
  obtain s1 where s1: "dispatch_domain_event P r payload s = (Inl (Retry default_retry_delay), s1)"
    "length (handled s1) = Suc (length (handled s))" "raises s1 = raises s"
    "scheduled s1 = scheduled s @ [default_retry_delay]"
    by auto
  have rec1: "fst (reconstruct_event P (dict_get payload ''event_type'' (PStr [])) payload s1) \<noteq> None"
    using Suc.prems(2) reconstruct_event_indep [of P _ payload s s1] by simp
  have all1: "\<forall>i < k. raises s1 (length (handled s1) + i)"
    using Suc.prems(3) s1(2,3) by auto
  have last1: "\<not> raises s1 (length (handled s1) + k)"
    using Suc.prems(4) s1(2,3) by simp
  have r1: "Suc r + k \<le> max_retries"
    using Suc.prems(1) by simp
  from Suc.IH [OF r1 rec1 all1 last1]
  obtain s' where
    "run_task P (Suc r) payload s1 = (Inr (Ok (dict_get payload ''event_type'' (PStr [])) cls), s')"
    "length (handled s') = length (handled s1) + k + 1"
    "scheduled s' = scheduled s1 @ replicate k default_retry_delay"
    by auto
  with s1 show ?case
    by (subst run_task_unfold) (simp add: replicate_append_same)
qed

lemma run_task_bound:
  "length (handled (snd (run_task P r payload s))) \<le> length (handled s) + Suc (max_retries - r)
   \<and> (\<exists>k \<le> max_retries - r.
         scheduled (snd (run_task P r payload s)) = scheduled s @ replicate k default_retry_delay)"
proof (induction P r payload s rule: run_task.induct)
  case (1 P r payload s)
  obtain res s1 where d: "dispatch_domain_event P r payload s = (res, s1)"
    by (cases "dispatch_domain_event P r payload s") auto
  note eff = dispatch_effects [OF d]
  show ?case
  proof (cases res)
    case (Inr v)
    with d eff show ?thesis
      by (subst run_task_unfold, subst run_task_unfold) auto
  next
    case (Inl e)
    show ?thesis
    proof (cases e)
      case (Failure exc)
      with Inl d eff show ?thesis
        by (subst run_task_unfold, subst run_task_unfold) auto
    next
      case (Retry c)
      with Inl eff(4) [of c] have r: "r < max_retries" by simp
      from "1.IH" [OF d [symmetric, unfolded Inl Retry] refl refl]
      obtain k where k: "k \<le> max_retries - Suc r"
        "length (handled (snd (run_task P (Suc r) payload s1)))
           \<le> length (handled s1) + Suc (max_retries - Suc r)"
        "scheduled (snd (run_task P (Suc r) payload s1)) = scheduled s1 @ replicate k default_retry_delay"
        by auto
      have run: "run_task P r payload s = run_task P (Suc r) payload s1"
        using d Inl Retry by (subst run_task_unfold) simp
      have "scheduled (snd (run_task P r payload s)) = scheduled s @ replicate (Suc k) default_retry_delay"
        using k(3) eff(3) Inl Retry run by (simp add: replicate_append_same)
      moreover have "Suc k \<le> max_retries - r"
        using k(1) r by simp
      moreover have "length (handled (snd (run_task P r payload s)))
          \<le> length (handled s) + Suc (max_retries - r)"
        using k(2) eff(1) r run by simp
      ultimately show ?thesis by blast
    qed
  qed
qed

lemma published_envelope_known:
  "handler_map_get (dict_get published_envelope ''event_type'' (PStr []))
     = Inr (Some (handlers_module, ''OnPostPublished''))"
  by (simp add: published_envelope_def dict_get_def EVENT_HANDLER_MAP_def)

lemma hex_uuid_1: "hex_uuid ''00000000-0000-0000-0000-000000000001'' = Some 1"
  by code_simp

lemma published_envelope_reconstructed:
  "fst (reconstruct_event hex_uuid (dict_get published_envelope ''event_type'' (PStr []))
          published_envelope (example_worker r))
     = Some (PostPublished 500 1000 (PUuid 1) (PStr ''hello-world''))"
  by (simp add: published_envelope_def dict_get_def reconstruct_event_def event_classes_def
      clean_item_def clean_id_def hex_uuid_1 dict_pop_def construct_event_def keys_within_def
      event_defaults_def uuid4_def now_def example_worker_def example_world_def Let_def)

text \<open>
  C3 (amended): the worker invokes the handler at most 4 times for one envelope: the
  first delivery and \<open>max_retries = 3\<close> retries, each retry scheduled 30 time units
  after the failed attempt. For an envelope that reaches its handler: when the handler
  raises at each of the 4 invocations, the task ends with the exception of the last
  invocation, after 3 retries, and that exception is in the log as an error; when it
  raises twice and then returns, the task ends with \<open>{status: ok}\<close> after 3
  invocations.
\<close>

theorem dispatch_retry_budget:
  "length (handled (snd (run_task P 0 payload s))) \<le> length (handled s) + 4
   \<and> (\<exists>k \<le> 3. scheduled (snd (run_task P 0 payload s)) = scheduled s @ replicate k 30)
   \<and> (handler_map_get (dict_get payload ''event_type'' (PStr [])) = Inr (Some (m, cls))
        \<and> fst (reconstruct_event P (dict_get payload ''event_type'' (PStr [])) payload s) \<noteq> None
        \<longrightarrow>
        ((\<forall>i \<le> 3. raises s (length (handled s) + i)) \<longrightarrow>
            fst (run_task P 0 payload s) = Inl (HandlerRaised (length (handled s) + 3))
          \<and> length (handled (snd (run_task P 0 payload s))) = length (handled s) + 4
          \<and> scheduled (snd (run_task P 0 payload s)) = scheduled s @ [30, 30, 30]
          \<and> (ERROR, ErrorProcessing (dict_get payload ''event_type'' (PStr []))
                      (HandlerRaised (length (handled s) + 3)))
                \<in> set (logged (snd (run_task P 0 payload s))))
      \<and> (raises s (length (handled s)) \<and> raises s (length (handled s) + 1)
          \<and> \<not> raises s (length (handled s) + 2) \<longrightarrow>
            fst (run_task P 0 payload s) = Inr (Ok (dict_get payload ''event_type'' (PStr [])) cls)
          \<and> length (handled (snd (run_task P 0 payload s))) = length (handled s) + 3
          \<and> scheduled (snd (run_task P 0 payload s)) = scheduled s @ [30, 30]))"
proof (intro conjI impI)
  from run_task_bound [of P 0 payload s]
  show "length (handled (snd (run_task P 0 payload s))) \<le> length (handled s) + 4"
    and "\<exists>k \<le> 3. scheduled (snd (run_task P 0 payload s)) = scheduled s @ replicate k 30"
    by (simp_all add: max_retries_def default_retry_delay_def)
next
  assume h: "handler_map_get (dict_get payload ''event_type'' (PStr [])) = Inr (Some (m, cls))
        \<and> fst (reconstruct_event P (dict_get payload ''event_type'' (PStr [])) payload s) \<noteq> None"
  {
    assume all: "\<forall>i \<le> 3. raises s (length (handled s) + i)"
    from run_task_exhausts [of payload m cls 0 3 P s] h all
    obtain s' where "run_task P 0 payload s = (Inl (HandlerRaised (length (handled s) + 3)), s')"
      "length (handled s') = length (handled s) + 3 + 1"
      "scheduled s' = scheduled s @ replicate 3 default_retry_delay"
      "(ERROR, ErrorProcessing (dict_get payload ''event_type'' (PStr []))
          (HandlerRaised (length (handled s) + 3))) \<in> set (logged s')"
      by (auto simp: max_retries_def)
    then show "fst (run_task P 0 payload s) = Inl (HandlerRaised (length (handled s) + 3))"
      and "length (handled (snd (run_task P 0 payload s))) = length (handled s) + 4"
      and "scheduled (snd (run_task P 0 payload s)) = scheduled s @ [30, 30, 30]"
      and "(ERROR, ErrorProcessing (dict_get payload ''event_type'' (PStr []))
              (HandlerRaised (length (handled s) + 3)))
            \<in> set (logged (snd (run_task P 0 payload s)))"
      by (simp_all add: default_retry_delay_def numeral_3_eq_3)
  }
  {
    assume two: "raises s (length (handled s)) \<and> raises s (length (handled s) + 1)
          \<and> \<not> raises s (length (handled s) + 2)"
    then have "\<forall>i < 2. raises s (length (handled s) + i)"
      by (auto simp: less_Suc_eq numeral_2_eq_2)
    with run_task_recovers [of payload m cls 0 2 P s] h two
    obtain s' where
      "run_task P 0 payload s = (Inr (Ok (dict_get payload ''event_type'' (PStr [])) cls), s')"
      "length (handled s') = length (handled s) + 2 + 1"
      "scheduled s' = scheduled s @ replicate 2 default_retry_delay"
      by (auto simp: max_retries_def)
    then show "fst (run_task P 0 payload s) = Inr (Ok (dict_get payload ''event_type'' (PStr [])) cls)"
      and "length (handled (snd (run_task P 0 payload s))) = length (handled s) + 3"
      and "scheduled (snd (run_task P 0 payload s)) = scheduled s @ [30, 30]"
      by (simp_all add: default_retry_delay_def numeral_2_eq_2)
  }
qed

theorem dispatch_retry_budget_witness:
  "fst (run_task hex_uuid 0 published_envelope (example_worker always_raises))
     = Inl (HandlerRaised 3)
   \<and> length (handled (snd (run_task hex_uuid 0 published_envelope (example_worker always_raises)))) = 4
   \<and> scheduled (snd (run_task hex_uuid 0 published_envelope (example_worker always_raises)))
       = [30, 30, 30]
   \<and> (ERROR, ErrorProcessing (PStr ''PostPublished'') (HandlerRaised 3))
       \<in> set (logged (snd (run_task hex_uuid 0 published_envelope (example_worker always_raises))))
   \<and> fst (run_task hex_uuid 0 published_envelope (example_worker raises_twice))
       = Inr (Ok (PStr ''PostPublished'') ''OnPostPublished'')
   \<and> length (handled (snd (run_task hex_uuid 0 published_envelope (example_worker raises_twice)))) = 3
   \<and> scheduled (snd (run_task hex_uuid 0 published_envelope (example_worker raises_twice)))
       = [30, 30]"
proof -
  have et: "dict_get published_envelope ''event_type'' (PStr []) = PStr ''PostPublished''"
    by (simp add: published_envelope_def dict_get_def)
  have a: "\<forall>i \<le> 3. raises (example_worker always_raises)
      (length (handled (example_worker always_raises)) + i)"
    by (simp add: example_worker_def always_raises_def)
  have t: "raises (example_worker raises_twice) (length (handled (example_worker raises_twice)))
      \<and> raises (example_worker raises_twice) (length (handled (example_worker raises_twice)) + 1)
      \<and> \<not> raises (example_worker raises_twice) (length (handled (example_worker raises_twice)) + 2)"
    by (simp add: example_worker_def raises_twice_def)
  from dispatch_retry_budget [of hex_uuid published_envelope "example_worker always_raises"
      handlers_module "''OnPostPublished''"]
    dispatch_retry_budget [of hex_uuid published_envelope "example_worker raises_twice"
      handlers_module "''OnPostPublished''"]
    published_envelope_known published_envelope_reconstructed a t
  show ?thesis
    by (simp add: et example_worker_def)
qed

theorem dispatch_three_attempts_counterexample:
  "raises (example_worker always_raises) 0 \<and> raises (example_worker always_raises) 1
   \<and> raises (example_worker always_raises) 2 \<and> raises (example_worker always_raises) 3
   \<and> length (handled (snd (run_task hex_uuid 0 published_envelope (example_worker always_raises)))) = 4
   \<and> \<not> length (handled (snd (run_task hex_uuid 0 published_envelope (example_worker always_raises)))) \<le> 3"
proof -
  have a: "\<forall>i \<le> max_retries - 0. raises (example_worker always_raises)
      (length (handled (example_worker always_raises)) + i)"
    by (simp add: example_worker_def always_raises_def)
  have rec: "fst (reconstruct_event hex_uuid (dict_get published_envelope ''event_type'' (PStr []))
          published_envelope (example_worker always_raises)) \<noteq> None"
    by (simp add: published_envelope_reconstructed)
  from run_task_exhausts [OF published_envelope_known refl _ rec a]
  have "length (handled (snd (run_task hex_uuid 0 published_envelope (example_worker always_raises)))) = 4"
    by (auto simp: max_retries_def example_worker_def)
  then show ?thesis
    by (simp add: example_worker_def always_raises_def)
qed

section \<open>Events that cannot be reconstructed\<close>

lemma dispatch_unreconstructed:
  assumes known: "handler_map_get (dict_get payload ''event_type'' (PStr [])) = Inr (Some (m, cls))"
    and rec: "fst (reconstruct_event P (dict_get payload ''event_type'' (PStr [])) payload s) = None"
  shows "\<exists>s1. dispatch_domain_event P r payload s
            = (Inr (Ok (dict_get payload ''event_type'' (PStr [])) cls), s1)
         \<and> handled s1 = handled s
         \<and> scheduled s1 = scheduled s
         \<and> (WARNING, RawPayload cls) \<in> set (logged s1)"
proof -
  let ?et = "dict_get payload ''event_type'' (PStr [])"
  let ?s0 = "log_to INFO (Processing ?et (dict_get payload ''event_id'' (PStr ''N/A''))) s"
  from known have cls: "build_handler cls = Inr cls"
    by (cases ?et)
       (auto simp: EVENT_HANDLER_MAP_def build_handler_def handler_classes_def split: if_splits)
  from rec reconstruct_event_indep [of P ?et payload s ?s0]
  obtain s1 where ev: "reconstruct_event P ?et payload ?s0 = (None, s1)"
    by (cases "reconstruct_event P ?et payload ?s0") auto
  from reconstruct_event_frame [OF ev]
  have fr: "handled s1 = handled s" "scheduled s1 = scheduled s"
    by simp_all
  show ?thesis
    using known cls ev fr
    by (simp add: dispatch_domain_event_def dispatch_try_def Let_def log_to_def)
qed

text \<open>
  C7, at an envelope of type \<open>PostUpdated\<close>: the handler map has a handler for it
  (\<open>OnPostCreated\<close>), no event is reconstructed, and the task returns \<open>{status: ok}\<close>
  after logging that it runs the handler on the raw payload. No handler invocation is
  made.
\<close>

theorem dispatch_updated_envelope:
  "handler_map_get (dict_get updated_envelope ''event_type'' (PStr []))
     = Inr (Some (handlers_module, ''OnPostCreated''))
   \<and> fst (reconstruct_event hex_uuid (PStr ''PostUpdated'') updated_envelope
           (example_worker always_raises)) = None
   \<and> dispatch_domain_event hex_uuid 0 updated_envelope (example_worker always_raises)
       = (Inr (Ok (PStr ''PostUpdated'') ''OnPostCreated''),
          (example_worker always_raises)
            \<lparr>logged := [(INFO, Processing (PStr ''PostUpdated'')
                                 (PStr ''00000000-0000-0000-0000-0000000001f5'')),
                        (WARNING, RawPayload ''OnPostCreated''),
                        (INFO, Processed (PStr ''PostUpdated'') ''OnPostCreated'')]\<rparr>)
   \<and> handled (snd (dispatch_domain_event hex_uuid 0 updated_envelope
         (example_worker always_raises))) = []"
  by (simp add: updated_envelope_def dict_get_def EVENT_HANDLER_MAP_def reconstruct_event_def
      event_classes_def dispatch_domain_event_def dispatch_try_def build_handler_def
      handler_classes_def log_to_def example_worker_def Let_def)

section \<open>Envelopes\<close>

text \<open>
  C2, at \<open>PostUpdated\<close>: the envelope the encoder makes for a \<open>PostUpdated\<close> event has the
  event type \<open>PostUpdated\<close>, for which \<open>_reconstruct_event\<close> has no class: decoding
  returns \<open>None\<close>, whatever the payload, and the payload fields are not reproduced.
\<close>

theorem post_updated_not_reconstructed:
  "dict_get (encode_event str_of_uuid str_of_time (PostUpdated eid ts p t)) ''event_type'' (PStr [])
     = PStr ''PostUpdated''
   \<and> reconstruct_event uuid_of_str (PStr ''PostUpdated'')
        (encode_event str_of_uuid str_of_time (PostUpdated eid ts p t)) s = (None, s)
   \<and> reconstruct_event uuid_of_str (PStr ''PostUpdated'') payload s = (None, s)"
  by (simp add: encode_event_def dict_get_def reconstruct_event_def event_classes_def)

text \<open>
  The other parts of C2. For the four event types that have a class, an event whose
  identifier fields hold identifiers that the parser reads back from their strings is
  reconstructed with the payload fields it had; \<open>event_id\<close> and \<open>occurred_at\<close> are fresh.
\<close>

theorem envelope_round_trip:
  assumes "uuid_of_str (str_of_uuid pid) = Some pid" "str_of_uuid pid \<noteq> []"
    and "uuid_of_str (str_of_uuid aid) = Some aid" "str_of_uuid aid \<noteq> []"
    and "uuid_of_str (str_of_uuid cid) = Some cid" "str_of_uuid cid \<noteq> []"
  shows "fst (reconstruct_event uuid_of_str (PStr ''PostCreated'')
            (encode_event str_of_uuid str_of_time (PostCreated eid ts (PUuid pid) (PUuid aid) (PStr t))) s)
         = Some (PostCreated (uuid_source (sys s) (uuid_reads (sys s)))
                   (clock (sys s) (clock_reads (sys s))) (PUuid pid) (PUuid aid) (PStr t))"
    and "fst (reconstruct_event uuid_of_str (PStr ''PostPublished'')
            (encode_event str_of_uuid str_of_time (PostPublished eid ts (PUuid pid) (PStr sl))) s)
         = Some (PostPublished (uuid_source (sys s) (uuid_reads (sys s)))
                   (clock (sys s) (clock_reads (sys s))) (PUuid pid) (PStr sl))"
    and "fst (reconstruct_event uuid_of_str (PStr ''PostArchived'')
            (encode_event str_of_uuid str_of_time (PostArchived eid ts (PUuid pid))) s)
         = Some (PostArchived (uuid_source (sys s) (uuid_reads (sys s)))
                   (clock (sys s) (clock_reads (sys s))) (PUuid pid))"
    and "fst (reconstruct_event uuid_of_str (PStr ''CommentAdded'')
            (encode_event str_of_uuid str_of_time
               (CommentAdded eid ts (PUuid pid) (PUuid cid) (PUuid aid))) s)
         = Some (CommentAdded (uuid_source (sys s) (uuid_reads (sys s)))
                   (clock (sys s) (clock_reads (sys s))) (PUuid pid) (PUuid cid) (PUuid aid))"
  using assms
  by (simp_all add: encode_event_def encode_field_def encode_id_def dict_get_def
      reconstruct_event_def event_classes_def clean_item_def clean_id_def dict_pop_def
      construct_event_def keys_within_def event_defaults_def uuid4_def now_def Let_def)

lemma hex_uuid_3: "hex_uuid ''00000000-0000-0000-0000-000000000003'' = Some 3"
  by code_simp

lemma hex_uuid_7: "hex_uuid ''00000000-0000-0000-0000-000000000007'' = Some 7"
  by code_simp

theorem envelope_round_trip_witness:
  "fst (reconstruct_event hex_uuid (PStr ''PostPublished'')
          (encode_event example_uuid_str example_time_str (PostPublished 500 1002 (PUuid 1) (PStr ''hello-world'')))
          (example_worker always_raises))
     = Some (PostPublished 500 1000 (PUuid 1) (PStr ''hello-world''))
   \<and> fst (reconstruct_event hex_uuid (PStr ''CommentAdded'')
          (encode_event example_uuid_str example_time_str (CommentAdded 500 1002 (PUuid 1) (PUuid 3) (PUuid 7)))
          (example_worker always_raises))
     = Some (CommentAdded 500 1000 (PUuid 1) (PUuid 3) (PUuid 7))"
  using envelope_round_trip(2) [of hex_uuid example_uuid_str 1 7 3 example_time_str 500 1002 "''hello-world''"
      "example_worker always_raises"]
    envelope_round_trip(4) [of hex_uuid example_uuid_str 1 7 3 example_time_str 500 1002
      "example_worker always_raises"]
    hex_uuid_1 hex_uuid_7 hex_uuid_3
  by (simp add: example_worker_def example_world_def example_uuid_str_def)

text \<open>
  An event type without a class is answered with \<open>None\<close> and nothing else happens; an
  identifier field whose string the parser refuses is handed to the event as the string
  it was, and the event is still built.
\<close>

theorem reconstruct_tolerant:
  "(\<not> List.member event_classes et \<longrightarrow>
      reconstruct_event uuid_of_str (PStr et) payload s = (None, s))
   \<and> (uuid_of_str raw = None \<and> raw \<noteq> [] \<longrightarrow>
        fst (reconstruct_event uuid_of_str (PStr ''PostPublished'')
               [(''event_type'', PStr ''PostPublished''),
                (''data'', PDict [(''post_id'', PStr raw), (''slug'', PStr sl)])] s)
        = Some (PostPublished (uuid_source (sys s) (uuid_reads (sys s)))
                  (clock (sys s) (clock_reads (sys s))) (PStr raw) (PStr sl)))"
  by (simp add: dict_get_def reconstruct_event_def event_classes_def clean_item_def clean_id_def
      dict_pop_def construct_event_def keys_within_def event_defaults_def uuid4_def now_def Let_def)

lemma hex_uuid_malformed: "hex_uuid ''not-a-uuid'' = None"
  by code_simp

theorem reconstruct_tolerant_witness:
  "reconstruct_event hex_uuid (PStr ''PostDeleted'') published_envelope (example_worker always_raises)
     = (None, example_worker always_raises)
   \<and> fst (reconstruct_event hex_uuid (PStr ''PostPublished'')
            [(''event_type'', PStr ''PostPublished''),
             (''data'', PDict [(''post_id'', PStr ''not-a-uuid''), (''slug'', PStr ''hello-world'')])]
            (example_worker always_raises))
       = Some (PostPublished 500 1000 (PStr ''not-a-uuid'') (PStr ''hello-world''))"
  using reconstruct_tolerant [of "''PostDeleted''" hex_uuid published_envelope
      "example_worker always_raises" "''not-a-uuid''" "''hello-world''"]
    hex_uuid_malformed
  by (simp add: event_classes_def example_worker_def example_world_def)


section \<open>The tag invariant\<close>

lemma new_post_aggregate_initial:
  assumes "new_post_aggregate t c author cat pid w = (Inr a, w')"
  shows "status (post a) = DRAFT" and "tags (post a) = []" and "comments_list a = []"
    and "post_id (post a) = agg_id a"
    and "\<exists>eid ts. domain_events a =
           [PostCreated eid ts (PUuid (agg_id a)) (PUuid author) (PStr (title_value t))]"
  using assms
  by (auto simp: new_post_aggregate_def new_post_def entity_init_def event_defaults_def
      record_event_def uuid4_def now_def Let_def split: prod.splits sum.splits option.splits)

lemma add_tag_distinct: "distinct (tags p) \<Longrightarrow> distinct (tags (add_tag t p))"
  by (simp add: add_tag_tags)

lemma fold_add_tag_distinct: "distinct (tags p) \<Longrightarrow> distinct (tags (fold add_tag ts p))"
  by (induction ts arbitrary: p) (simp_all add: add_tag_distinct)

lemma publish_tags: "tags (post (fst (snd (publish a w)))) = tags (post a)"
  by (simp add: publish_def set_status_def set_published_at_def record_event_def now_def
      event_defaults_def uuid4_def Let_def split: prod.splits)

lemma archive_tags: "tags (post (fst (snd (archive u a w)))) = tags (post a)"
  by (simp add: archive_def set_status_def record_event_def now_def
      event_defaults_def uuid4_def Let_def split: prod.splits)

lemma update_tags: "tags (post (fst (snd (update t c u a w)))) = tags (post a)"
  by (simp add: update_def update_content_def record_event_def now_def
      event_defaults_def uuid4_def Let_def split: prod.splits sum.splits)

lemma add_comment_tags: "tags (post (fst (snd (add_comment b u a w)))) = tags (post a)"
  by (simp add: add_comment_def new_comment_def entity_init_def record_event_def now_def
      event_defaults_def uuid4_def Let_def split: prod.splits sum.splits option.splits)

lemma call_tags_distinct:
  "distinct (tags (post a)) \<Longrightarrow> distinct (tags (post (fst (snd (call c a w)))))"
proof (cases c)
  case Publish
  assume "distinct (tags (post a))"
  with Publish publish_tags [of a w] show ?thesis by (cases "publish a w") auto
next
  case (Archive u)
  assume "distinct (tags (post a))"
  with Archive archive_tags [of u a w] show ?thesis by (cases "archive u a w") auto
next
  case (Update t c' u)
  assume "distinct (tags (post a))"
  with Update update_tags [of t c' u a w] show ?thesis by (cases "update t c' u a w") auto
next
  case (AddComment b u)
  assume "distinct (tags (post a))"
  with AddComment add_comment_tags [of b u a w] show ?thesis by (cases "add_comment b u a w") auto
next
  case (RemoveComment cid u)
  assume "distinct (tags (post a))"
  with RemoveComment remove_comment_post [of cid u a] show ?thesis by (cases "remove_comment cid u a") auto
next
  case (AddTags ts)
  assume "distinct (tags (post a))"
  with AddTags show ?thesis by (simp add: add_tags_def fold_add_tag_distinct)
next
  case (SetCategory cat)
  assume "distinct (tags (post a))"
  with SetCategory show ?thesis by (simp add: agg_set_category_def set_category_def)
next
  case PullEvents
  assume "distinct (tags (post a))"
  with PullEvents show ?thesis by (simp add: pull_events_def)
qed

text \<open>
  An aggregate made by the constructor is a draft without tags and comments, holding one
  \<open>PostCreated\<close> event, and whatever calls are made on it afterwards its tags stay
  distinct.
\<close>

theorem tags_stay_distinct:
  "(new_post_aggregate t c author cat pid w = (Inr a, w') \<longrightarrow>
      status (post a) = DRAFT \<and> tags (post a) = [] \<and> comments_list a = []
      \<and> (\<exists>eid ts. domain_events a =
           [PostCreated eid ts (PUuid (agg_id a)) (PUuid author) (PStr (title_value t))]))
   \<and> (distinct (tags (post a)) \<longrightarrow> distinct (tags (post (fst (snd (calls cs a w'))))))"
proof -
  have "distinct (tags (post a)) \<Longrightarrow> distinct (tags (post (fst (snd (calls cs a w')))))"
  proof (induction cs arbitrary: a w')
    case Nil
    then show ?case by simp
  next
    case (Cons c cs)
    obtain r a1 w1 where c: "call c a w' = (r, a1, w1)"
      by (cases "call c a w'") auto
    from call_tags_distinct [OF Cons.prems, of c w'] c have "distinct (tags (post a1))"
      by simp
    from Cons.IH [OF this, of w1] c show ?case
      by (cases "calls cs a1 w1") auto
  qed
  then show ?thesis
    using new_post_aggregate_initial [of t c author cat pid w a w'] by blast
qed

lemma new_example_aggregate:
  "new_post_aggregate (Title ''Hello World'') (Content long_content) 7 None None example_world
     = (Inr \<lparr>agg_id = 500,
             post = \<lparr>post_id = 500, title = Title ''Hello World'', slug = Slug ''hello-world'',
                      content = Content long_content, author_id = 7, category_id = None,
                      status = DRAFT, tags = [], created_at = 1000, updated_at = 1001,
                      published_at = None\<rparr>,
             comments_list = [],
             domain_events = [PostCreated 501 1002 (PUuid 500) (PUuid 7) (PStr ''Hello World'')]\<rparr>,
        example_world\<lparr>clock_reads := 3, uuid_reads := 2\<rparr>)"
  by (simp add: new_post_aggregate_def new_post_def entity_init_def event_defaults_def
      record_event_def uuid4_def now_def Let_def to_slug_hello example_world_def)

theorem tags_stay_distinct_witness:
  "fst (new_post_aggregate (Title ''Hello World'') (Content long_content) 7 None None example_world)
     = Inr \<lparr>agg_id = 500,
             post = \<lparr>post_id = 500, title = Title ''Hello World'', slug = Slug ''hello-world'',
                      content = Content long_content, author_id = 7, category_id = None,
                      status = DRAFT, tags = [], created_at = 1000, updated_at = 1001,
                      published_at = None\<rparr>,
             comments_list = [],
             domain_events = [PostCreated 501 1002 (PUuid 500) (PUuid 7) (PStr ''Hello World'')]\<rparr>
   \<and> distinct (tags (post (fst (snd (calls [AddTags [''A'', ''b''], Publish, AddTags [''a'']]
        \<lparr>agg_id = 500,
             post = \<lparr>post_id = 500, title = Title ''Hello World'', slug = Slug ''hello-world'',
                      content = Content long_content, author_id = 7, category_id = None,
                      status = DRAFT, tags = [], created_at = 1000, updated_at = 1001,
                      published_at = None\<rparr>,
             comments_list = [],
             domain_events = [PostCreated 501 1002 (PUuid 500) (PUuid 7) (PStr ''Hello World'')]\<rparr>
        (example_world\<lparr>clock_reads := 3, uuid_reads := 2\<rparr>))))))"
  using tags_stay_distinct [of "Title ''Hello World''" "Content long_content" 7 None None
      example_world _ "example_world\<lparr>clock_reads := 3, uuid_reads := 2\<rparr>"
      "[AddTags [''A'', ''b''], Publish, AddTags [''a'']]"]
    new_example_aggregate
  by simp

end
